theory Spec2Isabelle
  imports Main "HOL-Library.Sublist"
begin

section \<open>Data model (database/models.py)\<close>

text \<open>
  Identifiers are the canonical strings of the UUID columns, instants are seconds
  (\<open>datetime\<close> values), amounts are Python integers.  A table is the list of its rows.
  The accented letters of the source's messages are written without their accent.
\<close>

type_synonym uuid = string
type_synonym datetime = int

text \<open>
  Modelled from the spec: the module \<open>enums\<close> (class \<open>OrderStatus\<close>) is imported by
  every source file and is not part of the sources.  The spec (4.1) gives it as a closed,
  string-backed enumeration of seven values compared by exact value equality.
\<close>

datatype OrderStatus = CREE | VALIDEE | PAYEE | EXPEDIEE | LIVREE | ANNULEE | REMBOURSEE

record User =
  user_id :: uuid
  email :: string
  password_hash :: string
  first_name :: string
  last_name :: string
  address :: string
  is_admin :: bool

record Product =
  product_id :: uuid
  name :: string
  price_cents :: int
  stock_qty :: int
  active :: bool

record Cart =
  cart_id :: uuid
  cart_user_id :: uuid

record CartItem =
  ci_cart_id :: uuid
  ci_product_id :: uuid
  ci_quantity :: int

record Order =
  order_id :: uuid
  order_user_id :: uuid
  status :: OrderStatus
  created_at :: datetime
  validated_at :: "datetime option"
  paid_at :: "datetime option"
  shipped_at :: "datetime option"
  delivered_at :: "datetime option"
  cancelled_at :: "datetime option"
  refunded_at :: "datetime option"
  payment_id :: "uuid option"
  invoice_id :: "uuid option"
  delivery_id :: "uuid option"

record OrderItem =
  oi_order_id :: uuid
  oi_product_id :: uuid
  oi_name :: string
  unit_price_cents :: int
  quantity :: int

record Delivery =
  d_order_id :: uuid
  transporteur :: string
  tracking_number :: "string option"
  d_address :: string
  delivery_status :: string

text \<open>\<open>Payment.status\<close> is a \<open>String(50)\<close> column: an open string, not an enumeration.\<close>

record Payment =
  pay_id :: uuid
  pay_order_id :: uuid
  amount_cents :: int
  pay_status :: string
  payment_method :: string
  card_last4 :: "string option"
  postal_code :: "string option"
  phone :: "string option"
  street_number :: "string option"
  street_name :: "string option"
  charge_id :: "string option"

record db =
  users :: "User list"
  products :: "Product list"
  carts :: "Cart list"
  cart_items :: "CartItem list"
  orders :: "Order list"
  order_items :: "OrderItem list"
  payments :: "Payment list"
  deliveries :: "Delivery list"

datatype http_error = HTTPException nat string

section \<open>Queries and in-place mutation of a loaded row\<close>

text \<open>
  \<open>query(...).filter(P).first()\<close> is \<^const>\<open>find\<close>, \<open>.all()\<close> is \<^const>\<open>filter\<close>.
  Assigning to attributes of the object that \<open>.first()\<close> returned and committing rewrites
  that row and no other: \<open>upd_first\<close>.
\<close>

fun upd_first :: "('a \<Rightarrow> bool) \<Rightarrow> ('a \<Rightarrow> 'a) \<Rightarrow> 'a list \<Rightarrow> 'a list" where
  "upd_first P f [] = []"
| "upd_first P f (x # xs) = (if P x then f x # xs else x # upd_first P f xs)"

section \<open>Payment gateway, simulation mode (services/payment_service.py)\<close>

record charge_result =
  success :: bool
  transaction_id :: "string option"
  failure_reason :: "string option"
  cr_charge_id :: "string option"

definition success_cards :: "string list" where
  "success_cards = [''4242424242424242'', ''5555555555554444'', ''4000002500003155'']"

definition declined_cards :: "(string \<times> string) list" where
  "declined_cards =
     [(''4000000000000002'', ''Votre carte a ete refusee.''),
      (''4000000000009995'', ''Votre carte a ete refusee. Fonds insuffisants.''),
      (''4000000000000069'', ''Votre carte a expire.''),
      (''4000000000000127'', ''Le code de securite de votre carte est incorrect.'')]"

text \<open>\<open>s.replace(c, "")\<close> for a one-character \<open>c\<close>.\<close>

definition remove_char :: "char \<Rightarrow> string \<Rightarrow> string" where
  "remove_char c s = filter (\<lambda>x. x \<noteq> c) s"

definition card_number_clean :: "string \<Rightarrow> string" where
  "card_number_clean card_number = remove_char (CHR ''-'') (remove_char (CHR '' '') card_number)"

definition refused :: "string \<Rightarrow> charge_result" where
  "refused reason =
     \<lparr>success = False, transaction_id = None, failure_reason = Some reason, cr_charge_id = None\<rparr>"

definition accepted :: "string \<Rightarrow> string \<Rightarrow> charge_result" where
  "accepted tx ch =
     \<lparr>success = True, transaction_id = Some (''pi_sim_'' @ tx), failure_reason = None,
      cr_charge_id = Some (''ch_sim_'' @ ch)\<rparr>"

text \<open>
  \<open>PaymentGateway._simulate_payment\<close>.  The two \<open>uuid4().hex[:24]\<close> draws are the
  parameters \<open>tx\<close> and \<open>ch\<close>; the amount and the idempotency key are not read.
\<close>

definition simulate_payment :: "string \<Rightarrow> string \<Rightarrow> string \<Rightarrow> charge_result" where
  "simulate_payment tx ch card_number =
     (let c = card_number_clean card_number in
      case map_of declined_cards c of
        Some reason \<Rightarrow> refused reason
      | None \<Rightarrow>
          if c \<in> set success_cards \<or> prefix ''4242'' c \<or> prefix ''5555'' c then accepted tx ch
          else if suffix ''0000'' c then refused ''Votre carte a ete refusee.''
          else accepted tx ch)"

section \<open>Cart view (api.py, view\_cart)\<close>

record CartOut =
  co_user_id :: uuid
  co_items :: "(uuid \<times> int) list"
  total_cents :: int

text \<open>\<open>PostgreSQLCartRepository.get_by_user_id\<close>.\<close>

definition cart_get_by_user_id :: "db \<Rightarrow> uuid \<Rightarrow> Cart option" where
  "cart_get_by_user_id d uid =
     (if uid = [] then None else find (\<lambda>c. cart_user_id c = uid) (carts d))"

text \<open>The relationship \<open>Cart.items\<close>.\<close>

definition cart_items_of :: "db \<Rightarrow> Cart \<Rightarrow> CartItem list" where
  "cart_items_of d c = filter (\<lambda>i. ci_cart_id i = cart_id c) (cart_items d)"

definition product_get_by_id :: "db \<Rightarrow> uuid \<Rightarrow> Product option" where
  "product_get_by_id d pid = find (\<lambda>p. product_id p = pid) (products d)"

text \<open>\<open>items[k] = v\<close> on the response dictionary, kept in insertion order.\<close>

fun dict_set :: "'k \<Rightarrow> 'v \<Rightarrow> ('k \<times> 'v) list \<Rightarrow> ('k \<times> 'v) list" where
  "dict_set k v [] = [(k, v)]"
| "dict_set k v ((k', v') # kvs) =
     (if k' = k then (k, v) # kvs else (k', v') # dict_set k v kvs)"

text \<open>
  The loop of \<open>view_cart\<close> over \<open>c.items\<close>: the accumulators are the response
  dictionary, the running total and \<open>items_to_remove\<close>.
\<close>

fun view_cart_loop ::
  "db \<Rightarrow> CartItem list \<Rightarrow> (uuid \<times> int) list \<times> int \<times> CartItem list
     \<Rightarrow> (uuid \<times> int) list \<times> int \<times> CartItem list" where
  "view_cart_loop d [] acc = acc"
| "view_cart_loop d (item # rest) (items, tot, items_to_remove) =
     (case product_get_by_id d (ci_product_id item) of
        Some product \<Rightarrow>
          if active product
          then view_cart_loop d rest
                 (dict_set (ci_product_id item) (ci_quantity item) items,
                  tot + ci_quantity item * 1000, items_to_remove)
          else view_cart_loop d rest (items, tot, items_to_remove @ [item])
      | None \<Rightarrow> view_cart_loop d rest (items, tot, items_to_remove @ [item]))"

text \<open>\<open>db.delete(item)\<close> for each collected line.\<close>

fun delete_rows :: "'a list \<Rightarrow> 'a list \<Rightarrow> 'a list" where
  "delete_rows [] rows = rows"
| "delete_rows (x # xs) rows = delete_rows xs (remove1 x rows)"

definition view_cart :: "uuid \<Rightarrow> db \<Rightarrow> CartOut \<times> db" where
  "view_cart uid d =
     (case cart_get_by_user_id d uid of
        None \<Rightarrow> (\<lparr>co_user_id = uid, co_items = [], total_cents = 0\<rparr>, d)
      | Some c \<Rightarrow>
          (case view_cart_loop d (cart_items_of d c) ([], 0, []) of
             (items, tot, items_to_remove) \<Rightarrow>
               (\<lparr>co_user_id = uid, co_items = items, total_cents = tot\<rparr>,
                d\<lparr>cart_items := delete_rows items_to_remove (cart_items d)\<rparr>)))"

text \<open>A cart line whose product exists and is active.\<close>

definition line_survives :: "db \<Rightarrow> CartItem \<Rightarrow> bool" where
  "line_survives d i =
     (case product_get_by_id d (ci_product_id i) of Some p \<Rightarrow> active p | None \<Rightarrow> False)"

text \<open>The lines of the caller's cart whose product exists and is active.\<close>

definition surviving_lines :: "uuid \<Rightarrow> db \<Rightarrow> CartItem list" where
  "surviving_lines uid d =
     (case cart_get_by_user_id d uid of
        None \<Rightarrow> []
      | Some c \<Rightarrow>
          filter (\<lambda>i. case product_get_by_id d (ci_product_id i) of
                         Some p \<Rightarrow> active p | None \<Rightarrow> False)
                 (cart_items_of d c))"

text \<open>The same database with every catalogue price rewritten by \<open>f\<close>.\<close>

definition reprice :: "(Product \<Rightarrow> int) \<Rightarrow> db \<Rightarrow> db" where
  "reprice f d = d\<lparr>products := map (\<lambda>p. p\<lparr>price_cents := f p\<rparr>) (products d)\<rparr>"

section \<open>Repositories (database/repositories\_simple.py)\<close>

datatype repo_error = InvalidRequestError

text \<open>\<open>PostgreSQLOrderRepository.get_by_id\<close>, \<open>get_by_user_id\<close> and \<open>Order.items\<close>.\<close>

definition order_get_by_id :: "db \<Rightarrow> uuid \<Rightarrow> Order option" where
  "order_get_by_id d oid =
     (if oid = [] then None else find (\<lambda>r. order_id r = oid) (orders d))"

definition order_get_by_user_id :: "db \<Rightarrow> uuid \<Rightarrow> Order list option" where
  "order_get_by_user_id d uid =
     (if uid = [] then None else Some (filter (\<lambda>r. order_user_id r = uid) (orders d)))"

definition order_items_of :: "db \<Rightarrow> uuid \<Rightarrow> OrderItem list" where
  "order_items_of d oid = filter (\<lambda>i. oi_order_id i = oid) (order_items d)"

text \<open>\<open>Order.total_cents\<close>, also written inline in api.py.\<close>

definition order_total_cents :: "db \<Rightarrow> uuid \<Rightarrow> int" where
  "order_total_cents d oid =
     sum_list (map (\<lambda>item. unit_price_cents item * quantity item) (order_items_of d oid))"

text \<open>
  \<open>PostgreSQLOrderRepository.create\<close>: \<open>new_id\<close> is the primary key drawn by
  \<open>uuid.uuid4\<close>, \<open>now\<close> the column default \<open>utcnow()\<close>.  The column \<open>created_at\<close> is
  \<open>nullable=False\<close> with that default, so the defensive re-stamp of an absent value never runs.
\<close>

definition order_create :: "uuid \<Rightarrow> datetime \<Rightarrow> uuid \<Rightarrow> OrderStatus \<Rightarrow> db \<Rightarrow> Order \<times> db" where
  "order_create new_id now uid st d =
     (let order = \<lparr>order_id = new_id, order_user_id = uid, status = st, created_at = now,
                    validated_at = None, paid_at = None, shipped_at = None,
                    delivered_at = None, cancelled_at = None, refunded_at = None,
                    payment_id = None, invoice_id = None, delivery_id = None\<rparr>
      in (order, d\<lparr>orders := orders d @ [order]\<rparr>))"

definition order_add_item :: "OrderItem \<Rightarrow> db \<Rightarrow> db" where
  "order_add_item item d = d\<lparr>order_items := order_items d @ [item]\<rparr>"

text \<open>The chain of \<open>if\<close>/\<open>elif\<close> of \<open>update_status\<close> that stamps the stage.\<close>

definition stamp_status :: "datetime \<Rightarrow> OrderStatus \<Rightarrow> Order \<Rightarrow> Order" where
  "stamp_status now st order =
     (if st = VALIDEE then order\<lparr>validated_at := Some now\<rparr>
      else if st = EXPEDIEE then order\<lparr>shipped_at := Some now\<rparr>
      else if st = LIVREE then order\<lparr>delivered_at := Some now\<rparr>
      else if st = ANNULEE then order\<lparr>cancelled_at := Some now\<rparr>
      else if st = REMBOURSEE then order\<lparr>refunded_at := Some now\<rparr>
      else order)"

definition order_update_status :: "datetime \<Rightarrow> uuid \<Rightarrow> OrderStatus \<Rightarrow> db \<Rightarrow> bool \<times> db" where
  "order_update_status now oid st d =
     (case order_get_by_id d oid of
        None \<Rightarrow> (False, d)
      | Some order \<Rightarrow>
          (True, d\<lparr>orders := upd_first (\<lambda>r. order_id r = order_id order)
                                 (\<lambda>r. stamp_status now st (r\<lparr>status := st\<rparr>)) (orders d)\<rparr>))"

text \<open>
  \<open>Session.commit\<close> for one order instance writes its attributes to its row;
  \<open>Session.refresh\<close> reads the row back.
\<close>

definition commit_order :: "Order \<Rightarrow> db \<Rightarrow> db" where
  "commit_order order d =
     d\<lparr>orders := upd_first (\<lambda>r. order_id r = order_id order) (\<lambda>r. order) (orders d)\<rparr>"

definition refresh_order :: "Order \<Rightarrow> db \<Rightarrow> Order" where
  "refresh_order order d =
     (case find (\<lambda>r. order_id r = order_id order) (orders d) of
        Some row \<Rightarrow> row
      | None \<Rightarrow> order)"

text \<open>
  \<open>PostgreSQLOrderRepository.update\<close>.  The argument is the instance as the caller left
  it, with its pending attribute changes.  \<open>Session.expire(order, ['created_at'])\<close> raises
  for an instance that has no row; otherwise it drops the pending value of that attribute,
  and the next read loads the row's value.  An instance that passed \<open>expire\<close> is in the
  session, so the \<open>add\<close> branch does not run.
\<close>

definition order_update :: "Order \<Rightarrow> db \<Rightarrow> repo_error + Order \<times> db" where
  "order_update order d =
     (let original_created_at = created_at order in
      case find (\<lambda>r. order_id r = order_id order) (orders d) of
        None \<Rightarrow> Inl InvalidRequestError
      | Some row \<Rightarrow>
          let order1 = order\<lparr>created_at := created_at row\<rparr>;
              order2 = (if created_at order1 \<noteq> original_created_at
                        then order1\<lparr>created_at := original_created_at\<rparr> else order1);
              d1 = commit_order order2 d;
              order3 = refresh_order order2 d1
          in if created_at order3 \<noteq> original_created_at
             then let order4 = order3\<lparr>created_at := original_created_at\<rparr>;
                      d2 = commit_order order4 d1
                  in Inr (refresh_order order4 d2, d2)
             else Inr (order3, d1))"

text \<open>\<open>PostgreSQLPaymentRepository\<close>: \<open>create\<close> draws the primary key.\<close>

definition payment_create :: "uuid \<Rightarrow> Payment \<Rightarrow> db \<Rightarrow> Payment \<times> db" where
  "payment_create new_id data d =
     (let payment = data\<lparr>pay_id := new_id\<rparr>
      in (payment, d\<lparr>payments := payments d @ [payment]\<rparr>))"

definition payment_get_by_id :: "db \<Rightarrow> uuid \<Rightarrow> Payment option" where
  "payment_get_by_id d pid = find (\<lambda>p. pay_id p = pid) (payments d)"

definition payment_get_by_order_id :: "db \<Rightarrow> uuid \<Rightarrow> Payment list" where
  "payment_get_by_order_id d oid = filter (\<lambda>p. pay_order_id p = oid) (payments d)"

text \<open>\<open>PostgreSQLCartRepository.clear_cart\<close>.\<close>

definition clear_cart :: "uuid \<Rightarrow> db \<Rightarrow> bool \<times> db" where
  "clear_cart uid d =
     (case cart_get_by_user_id d uid of
        None \<Rightarrow> (False, d)
      | Some cart \<Rightarrow>
          (True, d\<lparr>cart_items := filter (\<lambda>i. ci_cart_id i \<noteq> cart_id cart) (cart_items d)\<rparr>))"

text \<open>
  \<open>PostgreSQLUserRepository\<close>.  \<open>create\<close> is given a dictionary that already holds
  \<open>password_hash\<close> (the only caller modelled is \<open>AuthService.register\<close>), so its
  normalisation of a clear \<open>password\<close> entry does not run.
\<close>

definition user_get_by_email :: "db \<Rightarrow> string \<Rightarrow> User option" where
  "user_get_by_email d e = find (\<lambda>u. email u = e) (users d)"

definition user_get_by_id :: "db \<Rightarrow> uuid \<Rightarrow> User option" where
  "user_get_by_id d uid = find (\<lambda>u. user_id u = uid) (users d)"

definition user_create :: "uuid \<Rightarrow> User \<Rightarrow> db \<Rightarrow> User \<times> db" where
  "user_create new_id data d =
     (let user = data\<lparr>user_id := new_id\<rparr>
      in (user, d\<lparr>users := users d @ [user]\<rparr>))"

section \<open>Authentication service (services/auth\_service.py)\<close>

text \<open>
  The libraries \<open>bcrypt\<close> and \<open>hashlib\<close> are parameters.  Passwords and hashes are the
  byte strings that \<open>encode('utf-8')\<close> gives.  \<open>None\<close> stands for a raised exception.
\<close>

record crypto =
  hashpw :: "string \<Rightarrow> string \<Rightarrow> string option"
  checkpw :: "string \<Rightarrow> string \<Rightarrow> bool option"
  sha256_hexdigest :: "string \<Rightarrow> string"

datatype auth_error = ValueError string

text \<open>\<open>salt\<close> is the value drawn by \<open>bcrypt.gensalt()\<close>.\<close>

definition hash_password :: "crypto \<Rightarrow> string \<Rightarrow> string \<Rightarrow> string" where
  "hash_password c salt password =
     (case hashpw c password salt of
        Some hashed \<Rightarrow> hashed
      | None \<Rightarrow> ''sha256::'' @ sha256_hexdigest c password)"

text \<open>
  \<open>hashed_password.split('::', 1)[1]\<close> on a string that starts with \<open>sha256::\<close> is the
  string without its first eight characters.
\<close>

definition verify_password :: "crypto \<Rightarrow> string \<Rightarrow> string \<Rightarrow> bool" where
  "verify_password c password hashed_password =
     (if \<not> prefix ''sha256::'' hashed_password
      then (case checkpw c password hashed_password of Some b \<Rightarrow> b | None \<Rightarrow> False)
      else sha256_hexdigest c password = drop 8 hashed_password)"

definition register ::
  "crypto \<Rightarrow> string \<Rightarrow> uuid \<Rightarrow> string \<Rightarrow> string \<Rightarrow> string \<Rightarrow> string \<Rightarrow> string \<Rightarrow> db
     \<Rightarrow> (auth_error + User) \<times> db" where
  "register c salt new_id em password fname lname addr d =
     (case user_get_by_email d em of
        Some existing_user \<Rightarrow>
          if verify_password c password (password_hash existing_user)
          then (Inr existing_user, d)
          else (Inl (ValueError ''Email deja utilise.''), d)
      | None \<Rightarrow>
          (let hashed_password = hash_password c salt password;
               user_data = \<lparr>user_id = [], email = em, password_hash = hashed_password,
                            first_name = fname, last_name = lname, address = addr,
                            is_admin = False\<rparr>
           in case user_create new_id user_data d of (user, d') \<Rightarrow> (Inr user, d')))"

section \<open>Payment gateway and payment service (services/payment\_service.py)\<close>

text \<open>
  What the external processor answers in live mode: a result of the live branch, or the
  \<open>InvalidRequestError\<close> about raw card data, on which \<open>charge_card\<close> falls back to the
  simulation.
\<close>

datatype stripe_outcome = Live charge_result | RawCardDataRefused

record PaymentGateway =
  use_stripe :: bool
  use_simulation :: bool

text \<open>\<open>PaymentGateway.__init__\<close>: the two flags are read from the environment.\<close>

definition PaymentGateway_init :: "bool \<Rightarrow> bool \<Rightarrow> PaymentGateway option" where
  "PaymentGateway_init stripe_key_set simulation_flag =
     (if \<not> stripe_key_set \<and> \<not> simulation_flag then None
      else Some \<lparr>use_stripe = stripe_key_set, use_simulation = simulation_flag\<rparr>)"

definition charge_card ::
  "PaymentGateway \<Rightarrow> stripe_outcome \<Rightarrow> string \<Rightarrow> string \<Rightarrow> string \<Rightarrow> charge_result" where
  "charge_card gw answer tx ch card_number =
     (if use_simulation gw then simulate_payment tx ch card_number
      else (case answer of
              RawCardDataRefused \<Rightarrow> simulate_payment tx ch card_number
            | Live r \<Rightarrow> r))"

record refund_result =
  rr_success :: bool
  refund_id :: "string option"

text \<open>\<open>_simulate_refund\<close> and \<open>refund\<close>; \<open>rid\<close> is the random part of the refund id.\<close>

definition simulate_refund :: "string \<Rightarrow> string \<Rightarrow> refund_result" where
  "simulate_refund rid ch_id =
     (if ch_id = [] \<or> (\<not> prefix ''ch_'' ch_id \<and> \<not> prefix ''ch_sim_'' ch_id)
      then \<lparr>rr_success = False, refund_id = None\<rparr>
      else \<lparr>rr_success = True, refund_id = Some (''re_'' @ rid)\<rparr>)"

definition refund :: "PaymentGateway \<Rightarrow> refund_result \<Rightarrow> string \<Rightarrow> string \<Rightarrow> refund_result" where
  "refund gw live_answer rid ch_id =
     (if use_simulation gw then simulate_refund rid ch_id else live_answer)"

text \<open>\<open>s[-4:] if len(s) >= 4 else None\<close>.\<close>

definition last4 :: "string \<Rightarrow> string option" where
  "last4 s = (if length s \<ge> 4 then Some (drop (length s - 4) s) else None)"

text \<open>What the service and the endpoints draw from outside the database.\<close>

record gateway_env =
  gateway :: "PaymentGateway option"
  outcome :: stripe_outcome
  live_refund :: refund_result
  tx_hex :: string
  ch_hex :: string
  re_hex :: string
  new_payment_id :: uuid

record PayIn =
  card_number :: string
  exp_month :: int
  exp_year :: int
  cvc :: string
  in_postal_code :: "string option"
  in_phone :: "string option"
  in_street_number :: "string option"
  in_street_name :: "string option"

text \<open>
  \<open>PaymentService.process_payment\<close>; the gateway is built by the constructor, and
  \<open>payment_data\<close> is a dictionary with the keys of \<open>PayIn\<close>.
\<close>

definition process_payment ::
  "PaymentGateway \<Rightarrow> gateway_env \<Rightarrow> uuid \<Rightarrow> PayIn \<Rightarrow> db \<Rightarrow> (auth_error + Payment) \<times> db" where
  "process_payment gw e oid payment_data d =
     (case order_get_by_id d oid of
        None \<Rightarrow> (Inl (ValueError ''Commande introuvable''), d)
      | Some order \<Rightarrow>
          if status order \<notin> set [CREE, VALIDEE]
          then (Inl (ValueError ''Commande deja payee ou traitee''), d)
          else
            (let amount = order_total_cents d (order_id order);
                 result = charge_card gw (outcome e) (tx_hex e) (ch_hex e) (card_number payment_data);
                 payment_data_dict =
                   \<lparr>pay_id = [], pay_order_id = oid, amount_cents = amount,
                    pay_status = (if success result then ''PAID'' else ''FAILED''),
                    payment_method = ''CARD'', card_last4 = last4 (card_number payment_data),
                    postal_code = in_postal_code payment_data, phone = in_phone payment_data,
                    street_number = in_street_number payment_data,
                    street_name = in_street_name payment_data,
                    charge_id = (if success result then cr_charge_id result else None)\<rparr>
             in case payment_create (new_payment_id e) payment_data_dict d of
                  (payment, d') \<Rightarrow>
                    if \<not> success result then (Inl (ValueError ''Paiement refuse''), d')
                    else (Inr payment, d')))"

text \<open>\<open>x or y\<close> on an optional amount: absent and zero are both falsy.\<close>

definition amount_or :: "int option \<Rightarrow> int \<Rightarrow> int" where
  "amount_or a dflt = (case a of None \<Rightarrow> dflt | Some n \<Rightarrow> if n = 0 then dflt else n)"

definition truthy :: "string option \<Rightarrow> bool" where
  "truthy s = (case s of None \<Rightarrow> False | Some x \<Rightarrow> x \<noteq> [])"

definition process_refund ::
  "PaymentGateway \<Rightarrow> gateway_env \<Rightarrow> uuid \<Rightarrow> int option \<Rightarrow> db \<Rightarrow> (auth_error + Payment) \<times> db" where
  "process_refund gw e oid amount_arg d =
     (case order_get_by_id d oid of
        None \<Rightarrow> (Inl (ValueError ''Commande introuvable''), d)
      | Some order \<Rightarrow>
          if status order \<notin> set [PAYEE, ANNULEE]
          then (Inl (ValueError ''Remboursement non autorise au statut actuel''), d)
          else
            (let amount = amount_or amount_arg (order_total_cents d (order_id order));
                 initial_payment =
                   (if truthy (payment_id order)
                    then payment_get_by_id d (the (payment_id order)) else None)
             in case initial_payment of
                  None \<Rightarrow> (Inl (ValueError ''Aucun paiement initial trouve''), d)
                | Some ip \<Rightarrow>
                    if \<not> truthy (charge_id ip)
                    then (Inl (ValueError ''Aucun charge_id trouve dans le paiement initial''), d)
                    else
                      (let ch_id = the (charge_id ip);
                           refund_result = refund gw (live_refund e) (re_hex e) ch_id
                       in if \<not> rr_success refund_result
                          then (Inl (ValueError ''Remboursement echoue''), d)
                          else
                            (let refund_data =
                                   \<lparr>pay_id = [], pay_order_id = oid, amount_cents = - amount,
                                    pay_status = ''REFUNDED'', payment_method = ''REFUND'',
                                    card_last4 = None, postal_code = None, phone = None,
                                    street_number = None, street_name = None,
                                    charge_id = Some ch_id\<rparr>
                             in case payment_create (new_payment_id e) refund_data d of
                                  (rf, d') \<Rightarrow> (Inr rf, d')))))"

section \<open>Order endpoints (api.py)\<close>

text \<open>
  Modelled from the spec: the module \<open>utils.validations\<close> is imported by \<open>pay_order\<close>
  and is not part of the sources.  Its validators return a pair (valid, message) and
  \<open>sanitize_numeric\<close> returns a string; they are parameters.
\<close>

record validations =
  validate_card_number :: "string \<Rightarrow> bool \<times> string"
  validate_cvv :: "string \<Rightarrow> bool \<times> string"
  validate_expiry_date :: "int \<Rightarrow> int \<Rightarrow> bool \<times> string"
  validate_postal_code :: "string \<Rightarrow> bool \<times> string"
  validate_phone :: "string \<Rightarrow> bool \<times> string"
  validate_street_number :: "string \<Rightarrow> bool \<times> string"
  validate_street_name :: "string \<Rightarrow> bool \<times> string"
  sanitize_numeric :: "string \<Rightarrow> string"

text \<open>A field that is validated only when supplied: the message of a failed check.\<close>

definition check_optional :: "(string \<Rightarrow> bool \<times> string) \<Rightarrow> string option \<Rightarrow> string option" where
  "check_optional validate x =
     (if truthy x then (if fst (validate (the x)) then None else Some (snd (validate (the x))))
      else None)"

text \<open>The seven checks of \<open>pay_order\<close> in order: the message of the first that fails.\<close>

definition run_validations :: "validations \<Rightarrow> PayIn \<Rightarrow> string option" where
  "run_validations v payment_data =
     (if \<not> fst (validate_card_number v (card_number payment_data))
      then Some (snd (validate_card_number v (card_number payment_data)))
      else if \<not> fst (validate_cvv v (cvc payment_data))
      then Some (snd (validate_cvv v (cvc payment_data)))
      else if \<not> fst (validate_expiry_date v (exp_month payment_data) (exp_year payment_data))
      then Some (snd (validate_expiry_date v (exp_month payment_data) (exp_year payment_data)))
      else case check_optional (validate_postal_code v) (in_postal_code payment_data) of
        Some err \<Rightarrow> Some err
      | None \<Rightarrow>
      (case check_optional (validate_phone v) (in_phone payment_data) of
        Some err \<Rightarrow> Some err
      | None \<Rightarrow>
      (case check_optional (validate_street_number v) (in_street_number payment_data) of
        Some err \<Rightarrow> Some err
      | None \<Rightarrow> check_optional (validate_street_name v) (in_street_name payment_data))))"

text \<open>\<open>re.sub(r'\s+', ' ', s.strip())\<close> on ASCII text.\<close>

definition is_space :: "char \<Rightarrow> bool" where
  "is_space c = (c \<in> set [CHR '' '', CHR 0x09, CHR 0x0A, CHR 0x0B, CHR 0x0C, CHR 0x0D,
                            CHR 0x1C, CHR 0x1D, CHR 0x1E, CHR 0x1F])"

definition strip :: "string \<Rightarrow> string" where
  "strip s = rev (dropWhile is_space (rev (dropWhile is_space s)))"

fun collapse_ws :: "bool \<Rightarrow> string \<Rightarrow> string" where
  "collapse_ws in_run [] = []"
| "collapse_ws in_run (c # cs) =
     (if is_space c
      then (if in_run then collapse_ws True cs else CHR '' '' # collapse_ws True cs)
      else c # collapse_ws False cs)"

definition cleaned_street_name :: "string option \<Rightarrow> string option" where
  "cleaned_street_name x = (if truthy x then Some (collapse_ws False (strip (the x))) else None)"

definition sanitize_optional :: "validations \<Rightarrow> string option \<Rightarrow> string option" where
  "sanitize_optional v x = (if truthy x then Some (sanitize_numeric v (the x)) else None)"

text \<open>
  The stock loop of \<open>pay_order\<close>: each line lowers the stock of its product, not below
  zero, and hides the product at or below the threshold.
\<close>

definition decrement_line :: "int \<Rightarrow> OrderItem \<Rightarrow> Product \<Rightarrow> Product" where
  "decrement_line threshold item product =
     (let new_stock = max 0 (stock_qty product - quantity item);
          product1 = product\<lparr>stock_qty := new_stock\<rparr>
      in if new_stock \<le> threshold then product1\<lparr>active := False\<rparr> else product1)"

fun decrement_stock :: "int \<Rightarrow> OrderItem list \<Rightarrow> Product list \<Rightarrow> Product list" where
  "decrement_stock threshold [] ps = ps"
| "decrement_stock threshold (item # rest) ps =
     decrement_stock threshold rest
       (case find (\<lambda>p. product_id p = oi_product_id item) ps of
          None \<Rightarrow> ps
        | Some product \<Rightarrow>
            upd_first (\<lambda>p. product_id p = oi_product_id item) (decrement_line threshold item) ps)"

record pay_response =
  pr_payment_id :: uuid
  pr_status :: string
  pr_amount_cents :: int

text \<open>
  \<open>pay_order\<close>.  \<open>uid\<close> is the caller that \<open>current_user_id\<close> authenticated,
  \<open>threshold\<close> the parsed \<open>LOW_STOCK_HIDE_THRESHOLD\<close>.  Each commit of the source is a
  new database value, so an error leaves behind what was committed before it.  The
  caller's email, which the source looks up and hands to \<open>charge_card\<close>, is read by
  neither mode of the gateway and is left out.
\<close>

definition pay_order ::
  "validations \<Rightarrow> gateway_env \<Rightarrow> int \<Rightarrow> uuid \<Rightarrow> PayIn \<Rightarrow> uuid \<Rightarrow> db
     \<Rightarrow> (http_error + pay_response) \<times> db" where
  "pay_order v e threshold oid payment_data uid d =
     (case order_get_by_id d oid of
        None \<Rightarrow> (Inl (HTTPException 404 ''Commande introuvable''), d)
      | Some order \<Rightarrow>
          if order_user_id order \<noteq> uid
          then (Inl (HTTPException 404 ''Commande introuvable''), d)
          else if status order \<noteq> CREE
          then (Inl (HTTPException 400 ''Commande deja payee ou traitee''), d)
          else
          (case run_validations v payment_data of
             Some err \<Rightarrow> (Inl (HTTPException 422 err), d)
           | None \<Rightarrow>
          (let card = sanitize_numeric v (card_number payment_data);
               tot = order_total_cents d (order_id order)
           in case gateway e of
                None \<Rightarrow> (Inl (HTTPException 500 ''Configuration Stripe manquante''), d)
              | Some gw \<Rightarrow>
          (let stripe_result = charge_card gw (outcome e) (tx_hex e) (ch_hex e) card;
               payment_data_dict =
                 \<lparr>pay_id = [], pay_order_id = oid, amount_cents = tot,
                  pay_status = (if success stripe_result then ''SUCCEEDED'' else ''FAILED''),
                  payment_method = ''CARD'', card_last4 = last4 card,
                  postal_code = sanitize_optional v (in_postal_code payment_data),
                  phone = sanitize_optional v (in_phone payment_data),
                  street_number = sanitize_optional v (in_street_number payment_data),
                  street_name = cleaned_street_name (in_street_name payment_data),
                  charge_id = (if success stripe_result then cr_charge_id stripe_result
                               else None)\<rparr>
           in case payment_create (new_payment_id e) payment_data_dict d of
                (payment, d1) \<Rightarrow>
          if \<not> success stripe_result
          then (Inl (HTTPException 402
                       (case failure_reason stripe_result of Some m \<Rightarrow> m | None \<Rightarrow> [])), d1)
          else
          (let d2 = d1\<lparr>products :=
                         decrement_stock threshold (order_items_of d1 (order_id order))
                           (products d1)\<rparr>;
               d3 = snd (clear_cart uid d2);
               order1 = order\<lparr>status := PAYEE, payment_id := Some (pay_id payment)\<rparr>
           in case order_update order1 d3 of
                Inl err \<Rightarrow> (Inl (HTTPException 400 ''InvalidRequestError''), d3)
              | Inr (order2, d4) \<Rightarrow>
                  (Inr \<lparr>pr_payment_id = pay_id payment, pr_status = ''SUCCEEDED'',
                        pr_amount_cents = tot\<rparr>, d4))))))"

text \<open>The stock loop shared by \<open>cancel_order\<close>, \<open>admin_cancel_order\<close> and
  \<open>admin_refund_order\<close>.\<close>

definition restore_line :: "OrderItem \<Rightarrow> Product \<Rightarrow> Product" where
  "restore_line item product =
     (let product1 = product\<lparr>stock_qty := stock_qty product + quantity item\<rparr>
      in if \<not> active product1 \<and> stock_qty product1 > 0
         then product1\<lparr>active := True\<rparr> else product1)"

fun restore_stock :: "OrderItem list \<Rightarrow> Product list \<Rightarrow> Product list" where
  "restore_stock [] ps = ps"
| "restore_stock (item # rest) ps =
     restore_stock rest
       (case find (\<lambda>p. product_id p = oi_product_id item) ps of
          None \<Rightarrow> ps
        | Some product \<Rightarrow>
            upd_first (\<lambda>p. product_id p = oi_product_id item) (restore_line item) ps)"

text \<open>\<open>payment.status = "REFUNDED"\<close> for each payment of the order, then commit.\<close>

definition mark_refunded :: "uuid \<Rightarrow> Payment list \<Rightarrow> Payment list" where
  "mark_refunded oid ps =
     map (\<lambda>p. if pay_order_id p = oid then p\<lparr>pay_status := ''REFUNDED''\<rparr> else p) ps"

record cancel_response =
  message :: string
  refund_amount_cents :: "int option"

text \<open>
  The body that \<open>cancel_order\<close> and \<open>admin_cancel_order\<close> run once the order is loaded
  (the two texts differ in the message only).  The clock is read once per request.
\<close>

definition cancel_body ::
  "string \<Rightarrow> datetime \<Rightarrow> uuid \<Rightarrow> Order \<Rightarrow> db \<Rightarrow> (http_error + cancel_response) \<times> db" where
  "cancel_body msg now oid order d =
     (if status order \<notin> set [CREE, VALIDEE, PAYEE]
      then (Inl (HTTPException 400 ''Cette commande ne peut pas etre annulee''), d)
      else
        (let was_paid = (status order = PAYEE);
             pays = (if was_paid then payment_get_by_order_id d oid else []);
             d1 = (if pays \<noteq> [] then d\<lparr>payments := mark_refunded oid (payments d)\<rparr> else d);
             refund_info = (if pays \<noteq> [] then Some (sum_list (map amount_cents pays)) else None);
             d2 = d1\<lparr>products :=
                       restore_stock (order_items_of d1 (order_id order)) (products d1)\<rparr>;
             order1 = (if was_paid then order\<lparr>status := REMBOURSEE, refunded_at := Some now\<rparr>
                       else order\<lparr>status := ANNULEE\<rparr>);
             order2 = order1\<lparr>cancelled_at := Some now\<rparr>
         in case order_update order2 d2 of
              Inl err \<Rightarrow> (Inl (HTTPException 400 ''Erreur lors de l'annulation''), d2)
            | Inr (order3, d3) \<Rightarrow>
                (Inr \<lparr>message = msg, refund_amount_cents = refund_info\<rparr>, d3)))"

definition cancel_order ::
  "datetime \<Rightarrow> uuid \<Rightarrow> uuid \<Rightarrow> db \<Rightarrow> (http_error + cancel_response) \<times> db" where
  "cancel_order now oid uid d =
     (case order_get_by_id d oid of
        None \<Rightarrow> (Inl (HTTPException 404 ''Commande introuvable''), d)
      | Some order \<Rightarrow>
          if order_user_id order \<noteq> uid
          then (Inl (HTTPException 404 ''Commande introuvable''), d)
          else cancel_body ''Commande annulee avec succes'' now oid order d)"

text \<open>The admin endpoints run after \<open>require_admin\<close> accepted the caller.\<close>

definition admin_cancel_order ::
  "datetime \<Rightarrow> uuid \<Rightarrow> db \<Rightarrow> (http_error + cancel_response) \<times> db" where
  "admin_cancel_order now oid d =
     (case order_get_by_id d oid of
        None \<Rightarrow> (Inl (HTTPException 404 ''Commande introuvable''), d)
      | Some order \<Rightarrow> cancel_body ''Commande annulee avec succes par l'admin'' now oid order d)"

definition admin_validate_order :: "datetime \<Rightarrow> uuid \<Rightarrow> db \<Rightarrow> (http_error + Order) \<times> db" where
  "admin_validate_order now oid d =
     (case order_get_by_id d oid of
        None \<Rightarrow> (Inl (HTTPException 404 ''Commande introuvable''), d)
      | Some order \<Rightarrow>
          if status order \<notin> set [CREE, PAYEE]
          then (Inl (HTTPException 400 ''Commande deja traitee''), d)
          else (case order_update (order\<lparr>status := VALIDEE, validated_at := Some now\<rparr>) d of
                  Inl err \<Rightarrow> (Inl (HTTPException 400 ''Erreur lors de la validation''), d)
                | Inr (order1, d1) \<Rightarrow> (Inr (refresh_order order1 d1), d1)))"

record DeliveryIn =
  in_transporteur :: string
  in_tracking_number :: "string option"
  in_delivery_status :: string

text \<open>
  \<open>admin_ship_order\<close>: the delivery is added to the session and committed by
  \<open>order_repo.update\<close>; \<open>order.user.address\<close> raises when the user row is missing.
\<close>

definition admin_ship_order ::
  "datetime \<Rightarrow> uuid \<Rightarrow> DeliveryIn \<Rightarrow> db \<Rightarrow> (http_error + unit) \<times> db" where
  "admin_ship_order now oid delivery_data d =
     (case order_get_by_id d oid of
        None \<Rightarrow> (Inl (HTTPException 404 ''Commande introuvable''), d)
      | Some order \<Rightarrow>
          if status order \<notin> set [VALIDEE, PAYEE]
          then (Inl (HTTPException 400 ''Commande non expediable''), d)
          else
            (case user_get_by_id d (order_user_id order) of
               None \<Rightarrow> (Inl (HTTPException 400 ''Erreur lors de l'expedition''), d)
             | Some u \<Rightarrow>
                 (let delivery = \<lparr>d_order_id = order_id order,
                                  transporteur = in_transporteur delivery_data,
                                  tracking_number = in_tracking_number delivery_data,
                                  d_address = address u,
                                  delivery_status = in_delivery_status delivery_data\<rparr>
                  in case order_update (order\<lparr>status := EXPEDIEE, shipped_at := Some now\<rparr>) d of
                       Inl err \<Rightarrow> (Inl (HTTPException 400 ''Erreur lors de l'expedition''), d)
                     | Inr (order1, d1) \<Rightarrow>
                         (Inr (), d1\<lparr>deliveries := deliveries d1 @ [delivery]\<rparr>))))"

definition admin_mark_delivered :: "datetime \<Rightarrow> uuid \<Rightarrow> db \<Rightarrow> (http_error + unit) \<times> db" where
  "admin_mark_delivered now oid d =
     (case order_get_by_id d oid of
        None \<Rightarrow> (Inl (HTTPException 404 ''Commande introuvable''), d)
      | Some order \<Rightarrow>
          if status order \<noteq> EXPEDIEE
          then (Inl (HTTPException 400 ''Commande non expediee''), d)
          else (case order_update (order\<lparr>status := LIVREE, delivered_at := Some now\<rparr>) d of
                  Inl err \<Rightarrow> (Inl (HTTPException 400 ''Erreur lors du marquage de livraison''), d)
                | Inr (order1, d1) \<Rightarrow>
                    (Inr (), d1\<lparr>deliveries :=
                                  upd_first (\<lambda>x. d_order_id x = order_id order1)
                                    (\<lambda>x. x\<lparr>delivery_status := ''LIVREE''\<rparr>) (deliveries d1)\<rparr>)))"

definition admin_refund_order :: "datetime \<Rightarrow> uuid \<Rightarrow> db \<Rightarrow> (http_error + unit) \<times> db" where
  "admin_refund_order now oid d =
     (case order_get_by_id d oid of
        None \<Rightarrow> (Inl (HTTPException 404 ''Commande introuvable''), d)
      | Some order \<Rightarrow>
          if status order \<notin> set [PAYEE, EXPEDIEE, LIVREE]
          then (Inl (HTTPException 400 ''Commande non remboursable''), d)
          else if payment_get_by_order_id d oid = []
          then (Inl (HTTPException 400 ''Aucun paiement trouve''), d)
          else
            (let d1 = d\<lparr>products :=
                          restore_stock (order_items_of d (order_id order)) (products d)\<rparr>
             in case order_update (order\<lparr>status := REMBOURSEE, refunded_at := Some now\<rparr>) d1 of
                  Inl err \<Rightarrow> (Inl (HTTPException 400 ''Erreur lors du remboursement''), d1)
                | Inr (order1, d2) \<Rightarrow>
                    (Inr (), d2\<lparr>payments := mark_refunded oid (payments d2)\<rparr>)))"

subsection \<open>Checkout\<close>

record CheckoutOut =
  ck_order_id :: uuid
  ck_total_cents :: int
  ck_status :: OrderStatus

fun check_cart :: "db \<Rightarrow> CartItem list \<Rightarrow> http_error option" where
  "check_cart d [] = None"
| "check_cart d (item # rest) =
     (case product_get_by_id d (ci_product_id item) of
        None \<Rightarrow> Some (HTTPException 400 ''Produit introuvable'')
      | Some product \<Rightarrow>
          if \<not> active product then Some (HTTPException 400 ''Produit non disponible'')
          else if stock_qty product < ci_quantity item
          then Some (HTTPException 400 ''Stock insuffisant'')
          else check_cart d rest)"

text \<open>The total of the cart at catalogue prices; \<open>None\<close> is the attribute error on a
  missing product.\<close>

fun cart_total_cents :: "db \<Rightarrow> CartItem list \<Rightarrow> int \<Rightarrow> int option" where
  "cart_total_cents d [] acc = Some acc"
| "cart_total_cents d (item # rest) acc =
     (case product_get_by_id d (ci_product_id item) of
        None \<Rightarrow> None
      | Some product \<Rightarrow> cart_total_cents d rest (acc + price_cents product * ci_quantity item))"

text \<open>The last loop of \<open>checkout\<close>: one committed order line per cart line.\<close>

fun add_items :: "uuid \<Rightarrow> CartItem list \<Rightarrow> int \<Rightarrow> db \<Rightarrow> int option \<times> db" where
  "add_items oid [] acc d = (Some acc, d)"
| "add_items oid (item # rest) acc d =
     (case product_get_by_id d (ci_product_id item) of
        None \<Rightarrow> (None, d)
      | Some product \<Rightarrow>
          add_items oid rest (acc + price_cents product * ci_quantity item)
            (order_add_item \<lparr>oi_order_id = oid, oi_product_id = ci_product_id item,
                             oi_name = name product, unit_price_cents = price_cents product,
                             quantity = ci_quantity item\<rparr> d))"

text \<open>
  \<open>checkout\<close> for the authenticated user \<open>uid\<close>; \<open>new_id\<close> is the key of an order it may
  create.  The thirty-minute window is 1800 seconds.
\<close>

definition checkout :: "datetime \<Rightarrow> uuid \<Rightarrow> uuid \<Rightarrow> db \<Rightarrow> (http_error + CheckoutOut) \<times> db" where
  "checkout now new_id uid d =
     (case cart_get_by_user_id d uid of
        None \<Rightarrow> (Inl (HTTPException 400 ''Panier vide''), d)
      | Some cart \<Rightarrow>
          if cart_items_of d cart = [] then (Inl (HTTPException 400 ''Panier vide''), d)
          else
          (case check_cart d (cart_items_of d cart) of
             Some err \<Rightarrow> (Inl err, d)
           | None \<Rightarrow>
          (case cart_total_cents d (cart_items_of d cart) 0 of
             None \<Rightarrow> (Inl (HTTPException 400 ''AttributeError''), d)
           | Some cart_total \<Rightarrow>
          (case find (\<lambda>r. status r = PAYEE \<and> now - created_at r \<le> 1800
                          \<and> order_total_cents d (order_id r) = cart_total)
                  (case order_get_by_user_id d uid of None \<Rightarrow> [] | Some rs \<Rightarrow> rs) of
             Some paid \<Rightarrow>
               (Inr \<lparr>ck_order_id = order_id paid,
                     ck_total_cents = order_total_cents d (order_id paid),
                     ck_status = status paid\<rparr>, d)
           | None \<Rightarrow>
          (case order_get_by_user_id d uid of
             None \<Rightarrow> (Inl (HTTPException 400 ''TypeError''), d)
           | Some existing_orders \<Rightarrow>
          (case (case find (\<lambda>r. status r = CREE) existing_orders of
                   None \<Rightarrow> order_create new_id now uid CREE d
                 | Some open_order \<Rightarrow>
                     (open_order,
                      d\<lparr>order_items := filter (\<lambda>i. oi_order_id i \<noteq> order_id open_order)
                                          (order_items d)\<rparr>)) of
             (order, d1) \<Rightarrow>
          (case add_items (order_id order) (cart_items_of d1 cart) 0 d1 of
             (None, d2) \<Rightarrow> (Inl (HTTPException 400 ''AttributeError''), d2)
           | (Some tot, d2) \<Rightarrow>
               (Inr \<lparr>ck_order_id = order_id order, ck_total_cents = tot,
                     ck_status = status order\<rparr>, d2))))))))"

section \<open>The operations as one transition system\<close>

text \<open>
  The endpoints of api.py that create an order or assign to an order attribute, and
  the cart view.  The other endpoints of the file (accounts, catalogue, cart edits,
  invoices, tracking, support) hold no assignment to an \<open>Order\<close> attribute and no
  deletion or insertion of an \<open>Order\<close> row.
\<close>

datatype endpoint =
    ViewCart uuid
  | Checkout datetime uuid uuid
  | PayOrder validations gateway_env int uuid PayIn uuid
  | CancelOrder datetime uuid uuid
  | AdminValidateOrder datetime uuid
  | AdminShipOrder datetime uuid DeliveryIn
  | AdminMarkDelivered datetime uuid
  | AdminRefundOrder datetime uuid
  | AdminCancelOrder datetime uuid

fun run_endpoint :: "endpoint \<Rightarrow> db \<Rightarrow> db" where
  "run_endpoint (ViewCart uid) d = snd (view_cart uid d)"
| "run_endpoint (Checkout now new_id uid) d = snd (checkout now new_id uid d)"
| "run_endpoint (PayOrder v e threshold oid payment_data uid) d =
     snd (pay_order v e threshold oid payment_data uid d)"
| "run_endpoint (CancelOrder now oid uid) d = snd (cancel_order now oid uid d)"
| "run_endpoint (AdminValidateOrder now oid) d = snd (admin_validate_order now oid d)"
| "run_endpoint (AdminShipOrder now oid delivery_data) d =
     snd (admin_ship_order now oid delivery_data d)"
| "run_endpoint (AdminMarkDelivered now oid) d = snd (admin_mark_delivered now oid d)"
| "run_endpoint (AdminRefundOrder now oid) d = snd (admin_refund_order now oid d)"
| "run_endpoint (AdminCancelOrder now oid) d = snd (admin_cancel_order now oid d)"

text \<open>Every modelled operation: the endpoints, the services and the repository helper.\<close>

datatype operation =
    Endpoint endpoint
  | Register crypto string uuid string string string string string
  | ProcessPayment PaymentGateway gateway_env uuid PayIn
  | ProcessRefund PaymentGateway gateway_env uuid "int option"
  | UpdateStatus datetime uuid OrderStatus

fun run_operation :: "operation \<Rightarrow> db \<Rightarrow> db" where
  "run_operation (Endpoint ep) d = run_endpoint ep d"
| "run_operation (Register c salt new_id em password fname lname addr) d =
     snd (register c salt new_id em password fname lname addr d)"
| "run_operation (ProcessPayment gw e oid payment_data) d =
     snd (process_payment gw e oid payment_data d)"
| "run_operation (ProcessRefund gw e oid amount_arg) d =
     snd (process_refund gw e oid amount_arg d)"
| "run_operation (UpdateStatus now oid st) d = snd (order_update_status now oid st d)"

definition empty_db :: db where
  "empty_db = \<lparr>users = [], products = [], carts = [], cart_items = [], orders = [],
               order_items = [], payments = [], deliveries = []\<rparr>"

text \<open>The states that a run of operations reaches from a given one.\<close>

inductive reachable_from :: "db \<Rightarrow> db \<Rightarrow> bool" for d0 :: db where
  start: "reachable_from d0 d0"
| step: "reachable_from d0 d \<Longrightarrow> reachable_from d0 (run_operation op d)"

section \<open>Relations used to state what an operation writes\<close>

text \<open>
  Between two values of the order table: nothing is written, or the first row with some
  key is replaced by a row with the same key, creation instant and payment instant,
  whose status follows from the old one by a pair of \<open>T\<close>.
\<close>

definition one_order_written ::
  "(OrderStatus \<times> OrderStatus) list \<Rightarrow> Order list \<Rightarrow> Order list \<Rightarrow> bool" where
  "one_order_written T rows rows' =
     (rows' = rows \<or>
      (\<exists>order x. find (\<lambda>r. order_id r = order_id x) rows = Some order
         \<and> rows' = upd_first (\<lambda>r. order_id r = order_id x) (\<lambda>r. x) rows
         \<and> (status order, status x) \<in> set T
         \<and> paid_at x = paid_at order \<and> created_at x = created_at order))"

text \<open>
  The order status state machine of the spec (4.10), per endpoint: the pairs (from, to)
  that the endpoint may make.
\<close>

fun status_transitions :: "endpoint \<Rightarrow> (OrderStatus \<times> OrderStatus) list" where
  "status_transitions (ViewCart uid) = []"
| "status_transitions (Checkout now new_id uid) = []"
| "status_transitions (PayOrder v e threshold oid payment_data uid) = [(CREE, PAYEE)]"
| "status_transitions (CancelOrder now oid uid) =
     [(CREE, ANNULEE), (VALIDEE, ANNULEE), (PAYEE, REMBOURSEE)]"
| "status_transitions (AdminValidateOrder now oid) = [(CREE, VALIDEE), (PAYEE, VALIDEE)]"
| "status_transitions (AdminShipOrder now oid delivery_data) =
     [(VALIDEE, EXPEDIEE), (PAYEE, EXPEDIEE)]"
| "status_transitions (AdminMarkDelivered now oid) = [(EXPEDIEE, LIVREE)]"
| "status_transitions (AdminRefundOrder now oid) =
     [(PAYEE, REMBOURSEE), (EXPEDIEE, REMBOURSEE), (LIVREE, REMBOURSEE)]"
| "status_transitions (AdminCancelOrder now oid) =
     [(CREE, ANNULEE), (VALIDEE, ANNULEE), (PAYEE, REMBOURSEE)]"

text \<open>
  The vocabulary of payment statuses as the spec gives it (section 3, entity Payment).
\<close>

definition payment_vocabulary :: "string list" where
  "payment_vocabulary = [''PENDING'', ''SUCCEEDED'', ''FAILED'', ''REFUNDED'']"

definition in_vocabulary :: "Payment \<Rightarrow> bool" where
  "in_vocabulary p = (pay_status p \<in> set payment_vocabulary)"

section \<open>Example data\<close>

text \<open>
  A small database on which the definitions are run: one customer with a cart, two
  products, and three orders of that customer, open, paid and delivered.
\<close>

definition sample_order :: "uuid \<Rightarrow> OrderStatus \<Rightarrow> uuid option \<Rightarrow> Order" where
  "sample_order oid st pay =
     \<lparr>order_id = oid, order_user_id = ''u1'', status = st, created_at = 100,
      validated_at = None, paid_at = None, shipped_at = None, delivered_at = None,
      cancelled_at = None, refunded_at = None, payment_id = pay, invoice_id = None,
      delivery_id = None\<rparr>"

definition sample_payment :: "uuid \<Rightarrow> uuid \<Rightarrow> int \<Rightarrow> Payment" where
  "sample_payment pid oid amount =
     \<lparr>pay_id = pid, pay_order_id = oid, amount_cents = amount, pay_status = ''SUCCEEDED'',
      payment_method = ''CARD'', card_last4 = Some ''4242'', postal_code = None, phone = None,
      street_number = None, street_name = None, charge_id = Some ''ch_sim_00''\<rparr>"

definition sample_db :: db where
  "sample_db =
     \<lparr>users = [\<lparr>user_id = ''u1'', email = ''ann@example.org'',
                 password_hash = ''$2b$salt$secret1'', first_name = ''Ann'',
                 last_name = ''Lee'', address = ''1 rue de la Paix, Paris'',
                 is_admin = False\<rparr>],
      products = [\<lparr>product_id = ''p1'', name = ''Savon'', price_cents = 500, stock_qty = 10,
                    active = True\<rparr>,
                  \<lparr>product_id = ''p2'', name = ''Huile'', price_cents = 900, stock_qty = 0,
                    active = False\<rparr>],
      carts = [\<lparr>cart_id = ''c1'', cart_user_id = ''u1''\<rparr>],
      cart_items = [\<lparr>ci_cart_id = ''c1'', ci_product_id = ''p1'', ci_quantity = 2\<rparr>],
      orders = [sample_order ''o1'' CREE None, sample_order ''o2'' PAYEE (Some ''y2''),
                sample_order ''o3'' LIVREE (Some ''y3'')],
      order_items =
        [\<lparr>oi_order_id = ''o1'', oi_product_id = ''p1'', oi_name = ''Savon'',
          unit_price_cents = 500, quantity = 2\<rparr>,
         \<lparr>oi_order_id = ''o2'', oi_product_id = ''p1'', oi_name = ''Savon'',
          unit_price_cents = 500, quantity = 3\<rparr>,
         \<lparr>oi_order_id = ''o2'', oi_product_id = ''p2'', oi_name = ''Huile'',
          unit_price_cents = 900, quantity = 1\<rparr>,
         \<lparr>oi_order_id = ''o3'', oi_product_id = ''p1'', oi_name = ''Savon'',
          unit_price_cents = 500, quantity = 1\<rparr>],
      payments = [sample_payment ''y2'' ''o2'' 2400, sample_payment ''y3'' ''o3'' 500],
      deliveries = []\<rparr>"

text \<open>
  A stand-in for the two hashing libraries with the shape of their answers: the primary
  hash refuses passwords of more than 72 bytes, so that both formats occur.
\<close>

definition sample_crypto :: crypto where
  "sample_crypto =
     \<lparr>hashpw = (\<lambda>p s. if length p > 72 then None else Some (''$2b$'' @ s @ ''$'' @ p)),
      checkpw = (\<lambda>p h. Some (suffix (''$'' @ p) h)),
      sha256_hexdigest = (\<lambda>p. p)\<rparr>"

definition sample_validations :: validations where
  "sample_validations =
     \<lparr>validate_card_number = (\<lambda>s. (length s \<ge> 13, ''numero de carte invalide'')),
      validate_cvv = (\<lambda>s. (length s = 3, ''cvv invalide'')),
      validate_expiry_date = (\<lambda>m y. (1 \<le> m \<and> m \<le> 12, ''date invalide'')),
      validate_postal_code = (\<lambda>s. (length s = 5, ''code postal invalide'')),
      validate_phone = (\<lambda>s. (length s = 10, ''telephone invalide'')),
      validate_street_number = (\<lambda>s. (s \<noteq> [], ''numero de rue invalide'')),
      validate_street_name = (\<lambda>s. (length s \<ge> 3, ''nom de rue invalide'')),
      sanitize_numeric = filter (\<lambda>c. c \<in> set ''0123456789'')\<rparr>"

definition sample_gateway_env :: gateway_env where
  "sample_gateway_env =
     \<lparr>gateway = PaymentGateway_init False True,
      outcome = RawCardDataRefused,
      live_refund = \<lparr>rr_success = False, refund_id = None\<rparr>,
      tx_hex = ''0123456789abcdef01234567'',
      ch_hex = ''89abcdef0123456789abcdef'',
      re_hex = ''456789abcdef0123456789ab'',
      new_payment_id = ''y9''\<rparr>"

definition sample_pay_in :: PayIn where
  "sample_pay_in =
     \<lparr>card_number = ''4242 4242 4242 4242'', exp_month = 12, exp_year = 2030, cvc = ''123'',
      in_postal_code = None, in_phone = None, in_street_number = None,
      in_street_name = None\<rparr>"

section \<open>Theorems\<close>

subsection \<open>Lists of rows\<close>

lemma length_upd_first [simp]: "length (upd_first P f xs) = length xs"
  by (induction xs) auto


lemma find_upd_first_same:
  "find P xs = Some x \<Longrightarrow> P (f x) \<Longrightarrow> find P (upd_first P f xs) = Some (f x)"
  by (induction xs) (auto split: if_splits)

lemma find_upd_first_none:
  "find P xs = None \<Longrightarrow> upd_first P f xs = xs"
  by (induction xs) (auto split: if_splits)

subsection \<open>Order repository: update\<close>

lemma order_update_result:
  assumes "find (\<lambda>r. order_id r = order_id order) (orders d) = Some row"
  shows "order_update order d = Inr (order, commit_order order d)"
proof -
  have f: "find (\<lambda>r. order_id r = order_id order) (orders (commit_order order d)) = Some order"
    using find_upd_first_same [OF assms, of "\<lambda>r. order"] by (simp add: commit_order_def)
  have e: "order\<lparr>created_at := created_at order\<rparr> = order" by simp
  show ?thesis
    using assms f by (simp add: order_update_def Let_def refresh_order_def e)
qed

lemma order_update_none:
  "find (\<lambda>r. order_id r = order_id order) (orders d) = None
   \<Longrightarrow> order_update order d = Inl InvalidRequestError"
  by (simp add: order_update_def)




subsection \<open>Simulated charges\<close>

lemma suffix0000_not_declined:
  "suffix ''0000'' c \<Longrightarrow> map_of declined_cards c = None"
  by (auto simp: declined_cards_def suffix_def)

lemma suffix0000_success_cards:
  "suffix ''0000'' c \<Longrightarrow> c \<in> set success_cards \<Longrightarrow> prefix ''4242'' c \<or> prefix ''5555'' c"
  by (auto simp: success_cards_def suffix_def)

text \<open>
  Claim C6 as stated: in simulation mode every card number whose cleaned string ends in
  four zeros is refused generically.  It fails for a number that also begins with 4242:
  the allow-list test comes first and the charge succeeds.
\<close>

theorem simulate_payment_0000_counterexample:
  "suffix ''0000'' (card_number_clean ''4242 0000 0000 0000'')
   \<and> simulate_payment ''0123456789abcdef01234567'' ''89abcdef0123456789abcdef''
         ''4242 0000 0000 0000''
       = \<lparr>success = True, transaction_id = Some ''pi_sim_0123456789abcdef01234567'',
          failure_reason = None, cr_charge_id = Some ''ch_sim_89abcdef0123456789abcdef''\<rparr>"
  by (simp add: simulate_payment_def card_number_clean_def remove_char_def declined_cards_def
      success_cards_def accepted_def suffix_def)

text \<open>
  Claim C6 as amended: a card number whose cleaned string ends in four zeros and begins
  with neither 4242 nor 5555 is refused with the generic reason, without transaction id
  and without charge id; one that begins with 4242 or 5555 is accepted.
\<close>

theorem simulate_payment_0000:
  assumes "suffix ''0000'' (card_number_clean n)"
  shows "simulate_payment tx ch n =
           (if prefix ''4242'' (card_number_clean n) \<or> prefix ''5555'' (card_number_clean n)
            then accepted tx ch
            else \<lparr>success = False, transaction_id = None,
                  failure_reason = Some ''Votre carte a ete refusee.'', cr_charge_id = None\<rparr>)"
  using suffix0000_not_declined [OF assms] suffix0000_success_cards [OF assms] assms
  by (auto simp: simulate_payment_def Let_def refused_def)

theorem simulate_payment_0000_witness:
  "suffix ''0000'' (card_number_clean ''4000-0000 0000 0000'')
   \<and> simulate_payment ''0123456789abcdef01234567'' ''89abcdef0123456789abcdef''
         ''4000-0000 0000 0000''
       = \<lparr>success = False, transaction_id = None,
          failure_reason = Some ''Votre carte a ete refusee.'', cr_charge_id = None\<rparr>"
proof -
  have h: "suffix ''0000'' (card_number_clean ''4000-0000 0000 0000'')"
    by (simp add: card_number_clean_def remove_char_def suffix_def)
  have c: "card_number_clean ''4000-0000 0000 0000'' = ''4000000000000000''"
    by (simp add: card_number_clean_def remove_char_def)
  show ?thesis
    using h simulate_payment_0000 [OF h, of "''0123456789abcdef01234567''"
        "''89abcdef0123456789abcdef''"]
    by (simp add: c)
qed

subsection \<open>Cart view\<close>

lemma view_cart_loop_total:
  "fst (snd (view_cart_loop d its (items, tot, rm))) =
     tot + 1000 * sum_list (map ci_quantity (filter (line_survives d) its))"
  by (induction its arbitrary: items tot rm)
     (auto simp: line_survives_def algebra_simps split: option.splits)

lemma find_map_update:
  assumes "\<And>x. P (f x) = P x"
  shows "find P (map f xs) = map_option f (find P xs)"
  using assms by (induction xs) auto

lemma product_get_by_id_reprice:
  "product_get_by_id (reprice f d) pid =
     map_option (\<lambda>p. p\<lparr>price_cents := f p\<rparr>) (product_get_by_id d pid)"
  unfolding product_get_by_id_def reprice_def
  by (simp add: find_map_update)

lemma line_survives_reprice: "line_survives (reprice f d) = line_survives d"
  by (rule ext) (simp add: line_survives_def product_get_by_id_reprice split: option.splits)

lemma surviving_lines_eq:
  "surviving_lines uid d =
     (case cart_get_by_user_id d uid of
        None \<Rightarrow> [] | Some c \<Rightarrow> filter (line_survives d) (cart_items_of d c))"
  unfolding surviving_lines_def line_survives_def by simp

lemma surviving_lines_reprice: "surviving_lines uid (reprice f d) = surviving_lines uid d"
  unfolding surviving_lines_eq line_survives_reprice
  by (simp add: reprice_def cart_get_by_user_id_def cart_items_of_def split: option.splits)

lemma view_cart_total_sum:
  "total_cents (fst (view_cart uid d)) = 1000 * sum_list (map ci_quantity (surviving_lines uid d))"
proof (cases "cart_get_by_user_id d uid")
  case None
  then show ?thesis by (simp add: view_cart_def surviving_lines_eq)
next
  case (Some c)
  obtain items tot rm where l: "view_cart_loop d (cart_items_of d c) ([], 0, []) = (items, tot, rm)"
    by (cases "view_cart_loop d (cart_items_of d c) ([], 0, [])") auto
  have "tot = 1000 * sum_list (map ci_quantity (filter (line_survives d) (cart_items_of d c)))"
    using view_cart_loop_total [of d "cart_items_of d c" "[]" 0 "[]"] l by simp
  then show ?thesis using Some l by (simp add: view_cart_def surviving_lines_eq)
qed

text \<open>The cart of the example: two units of a product priced 500 are totalled 2000.\<close>

lemma view_cart_sample:
  "total_cents (fst (view_cart ''u1'' sample_db)) = 2000
   \<and> co_items (fst (view_cart ''u1'' sample_db)) = [(''p1'', 2)]"
  by (simp add: view_cart_def cart_get_by_user_id_def cart_items_of_def product_get_by_id_def
      sample_db_def)

text \<open>
  Claim C5: the total that the cart view returns is 1000 times the sum of the quantities
  of the lines of the caller's cart whose product exists and is active, whatever the
  catalogue prices are.
\<close>

theorem view_cart_total:
  "total_cents (fst (view_cart uid d)) = 1000 * sum_list (map ci_quantity (surviving_lines uid d))
   \<and> total_cents (fst (view_cart uid (reprice f d))) = total_cents (fst (view_cart uid d))"
  by (simp add: view_cart_total_sum surviving_lines_reprice)

subsection \<open>Passwords and registration\<close>

lemma verify_hash_same:
  assumes "\<And>h. hashpw c p salt = Some h \<Longrightarrow> checkpw c p h = Some True \<and> \<not> prefix ''sha256::'' h"
  shows "verify_password c p (hash_password c salt p)"
proof (cases "hashpw c p salt")
  case None
  then show ?thesis by (simp add: verify_password_def hash_password_def)
next
  case (Some h)
  from assms [OF Some] have "checkpw c p h = Some True" "\<not> prefix ''sha256::'' h" by simp_all
  then show ?thesis using Some by (simp add: verify_password_def hash_password_def)
qed








lemma register_new:
  assumes "user_get_by_email d em = None"
  shows "register c salt new_id em password fname lname addr d =
           (Inr \<lparr>user_id = new_id, email = em, password_hash = hash_password c salt password,
                 first_name = fname, last_name = lname, address = addr, is_admin = False\<rparr>,
            d\<lparr>users := users d @
                 [\<lparr>user_id = new_id, email = em, password_hash = hash_password c salt password,
                   first_name = fname, last_name = lname, address = addr, is_admin = False\<rparr>]\<rparr>)"
  using assms by (simp add: register_def user_create_def Let_def)

text \<open>
  Claim C8: when the email belongs to a user whose stored hash verifies the password,
  \<open>register\<close> returns that user and leaves the database as it is; when the hash does
  not verify, it fails with the email-already-used error and leaves the database as it
  is; otherwise it appends exactly one user, not an administrator, whose stored hash
  verifies the password (given that \<open>bcrypt.checkpw\<close> accepts a password on the hash
  that \<open>bcrypt.hashpw\<close> made of it).
\<close>

theorem register_cases:
  assumes "\<And>h. hashpw c password salt = Some h
             \<Longrightarrow> checkpw c password h = Some True \<and> \<not> prefix ''sha256::'' h"
  shows "(\<forall>u. user_get_by_email d em = Some u \<and> verify_password c password (password_hash u)
            \<longrightarrow> register c salt new_id em password fname lname addr d = (Inr u, d))
       \<and> (\<forall>u. user_get_by_email d em = Some u \<and> \<not> verify_password c password (password_hash u)
            \<longrightarrow> register c salt new_id em password fname lname addr d
                  = (Inl (ValueError ''Email deja utilise.''), d))
       \<and> (user_get_by_email d em = None
            \<longrightarrow> (\<exists>user. register c salt new_id em password fname lname addr d
                           = (Inr user, d\<lparr>users := users d @ [user]\<rparr>)
                   \<and> email user = em \<and> \<not> is_admin user
                   \<and> verify_password c password (password_hash user)))"
proof (intro conjI allI impI)
  fix u assume "user_get_by_email d em = Some u \<and> verify_password c password (password_hash u)"
  then show "register c salt new_id em password fname lname addr d = (Inr u, d)"
    by (simp add: register_def)
next
  fix u assume "user_get_by_email d em = Some u \<and> \<not> verify_password c password (password_hash u)"
  then show "register c salt new_id em password fname lname addr d
                  = (Inl (ValueError ''Email deja utilise.''), d)"
    by (simp add: register_def)
next
  assume n: "user_get_by_email d em = None"
  show "\<exists>user. register c salt new_id em password fname lname addr d
                           = (Inr user, d\<lparr>users := users d @ [user]\<rparr>)
                   \<and> email user = em \<and> \<not> is_admin user
                   \<and> verify_password c password (password_hash user)"
    using register_new [OF n] verify_hash_same [OF assms] by simp
qed


text \<open>The three cases of registration on the example database.\<close>

theorem register_cases_witness:
  "register sample_crypto ''salt'' ''u2'' ''ann@example.org'' ''secret1'' ''Ann'' ''Lee''
      ''2 rue Monge, Paris'' sample_db = (Inr (hd (users sample_db)), sample_db)
   \<and> register sample_crypto ''salt'' ''u2'' ''ann@example.org'' ''secret2'' ''Ann'' ''Lee''
      ''2 rue Monge, Paris'' sample_db = (Inl (ValueError ''Email deja utilise.''), sample_db)
   \<and> (\<exists>user. register sample_crypto ''salt'' ''u2'' ''bob@example.org'' ''secret2'' ''Bob''
         ''Roy'' ''2 rue Monge, Paris'' sample_db
           = (Inr user, sample_db\<lparr>users := users sample_db @ [user]\<rparr>)
        \<and> email user = ''bob@example.org'' \<and> \<not> is_admin user
        \<and> verify_password sample_crypto ''secret2'' (password_hash user))"
proof -
  have c1: "\<And>h. hashpw sample_crypto ''secret1'' ''salt'' = Some h
             \<Longrightarrow> checkpw sample_crypto ''secret1'' h = Some True \<and> \<not> prefix ''sha256::'' h"
    by (auto simp: sample_crypto_def suffix_def)
  have c2: "\<And>h. hashpw sample_crypto ''secret2'' ''salt'' = Some h
             \<Longrightarrow> checkpw sample_crypto ''secret2'' h = Some True \<and> \<not> prefix ''sha256::'' h"
    by (auto simp: sample_crypto_def suffix_def)
  have g: "user_get_by_email sample_db ''ann@example.org'' = Some (hd (users sample_db))"
    by (simp add: user_get_by_email_def sample_db_def)
  have n: "user_get_by_email sample_db ''bob@example.org'' = None"
    by (simp add: user_get_by_email_def sample_db_def)
  have v1: "verify_password sample_crypto ''secret1'' (password_hash (hd (users sample_db)))"
    by (simp add: verify_password_def sample_crypto_def sample_db_def suffix_def)
  have v2: "\<not> verify_password sample_crypto ''secret2'' (password_hash (hd (users sample_db)))"
    by (simp add: verify_password_def sample_crypto_def sample_db_def suffix_def)
  have "register sample_crypto ''salt'' ''u2'' ''ann@example.org'' ''secret1'' ''Ann'' ''Lee''
      ''2 rue Monge, Paris'' sample_db = (Inr (hd (users sample_db)), sample_db)"
    using register_cases [where c = sample_crypto and password = "''secret1''"
        and salt = "''salt''" and d = sample_db and em = "''ann@example.org''", OF c1] g v1
    by blast
  moreover
  have "register sample_crypto ''salt'' ''u2'' ''ann@example.org'' ''secret2'' ''Ann'' ''Lee''
      ''2 rue Monge, Paris'' sample_db = (Inl (ValueError ''Email deja utilise.''), sample_db)"
    using register_cases [where c = sample_crypto and password = "''secret2''"
        and salt = "''salt''" and d = sample_db and em = "''ann@example.org''", OF c2] g v2
    by blast
  moreover
  have "\<exists>user. register sample_crypto ''salt'' ''u2'' ''bob@example.org'' ''secret2'' ''Bob''
         ''Roy'' ''2 rue Monge, Paris'' sample_db
           = (Inr user, sample_db\<lparr>users := users sample_db @ [user]\<rparr>)
        \<and> email user = ''bob@example.org'' \<and> \<not> is_admin user
        \<and> verify_password sample_crypto ''secret2'' (password_hash user)"
    using register_cases [where c = sample_crypto and password = "''secret2''"
        and salt = "''salt''" and d = sample_db and em = "''bob@example.org''", OF c2] n
    by blast
  ultimately show ?thesis by blast
qed

subsection \<open>Stock loops, cart clearing and payment\<close>

lemma find_upd_first_disjoint:
  "(\<And>x. P x \<Longrightarrow> \<not> Q x \<and> \<not> Q (f x)) \<Longrightarrow> find Q (upd_first P f xs) = find Q xs"
  by (induction xs) auto

lemma find_upd_first_map:
  "(\<And>x. P (f x) = P x) \<Longrightarrow> find P (upd_first P f xs) = map_option f (find P xs)"
  by (induction xs) auto

lemma upd_first_guarded:
  "(case find P xs of None \<Rightarrow> xs | Some y \<Rightarrow> upd_first P f xs) = upd_first P f xs"
  by (simp add: find_upd_first_none split: option.splits)

lemma product_id_decrement_line [simp]:
  "product_id (decrement_line th item p) = product_id p"
  by (simp add: decrement_line_def Let_def)

lemma stock_qty_decrement_line:
  "stock_qty (decrement_line th item p) = max 0 (stock_qty p - quantity item)"
  by (simp add: decrement_line_def Let_def)

lemma product_id_restore_line [simp]:
  "product_id (restore_line item p) = product_id p"
  by (simp add: restore_line_def Let_def)

lemma stock_qty_restore_line:
  "stock_qty (restore_line item p) = stock_qty p + quantity item"
  by (simp add: restore_line_def Let_def)

lemma find_line_update:
  assumes "\<And>x. product_id (f x) = product_id x"
  shows "find (\<lambda>p. product_id p = pid) (upd_first (\<lambda>p. product_id p = pid') f ps) =
           (if pid = pid' then map_option f (find (\<lambda>p. product_id p = pid) ps)
            else find (\<lambda>p. product_id p = pid) ps)"
proof (cases "pid = pid'")
  case True
  then show ?thesis using find_upd_first_map [of "\<lambda>p. product_id p = pid" f ps] assms by simp
next
  case False
  then show ?thesis
    using find_upd_first_disjoint [of "\<lambda>p. product_id p = pid'" "\<lambda>p. product_id p = pid" f ps] assms
    by simp
qed

lemma find_decrement_stock:
  "find (\<lambda>p. product_id p = pid) (decrement_stock th items ps) =
     map_option (fold (decrement_line th) (filter (\<lambda>i. oi_product_id i = pid) items))
       (find (\<lambda>p. product_id p = pid) ps)"
proof (induction items arbitrary: ps)
  case Nil
  then show ?case by (simp add: option.map_ident)
next
  case (Cons item rest)
  show ?case
    by (simp add: upd_first_guarded Cons.IH find_line_update option.map_comp comp_def)
qed

lemma find_restore_stock:
  "find (\<lambda>p. product_id p = pid) (restore_stock items ps) =
     map_option (fold restore_line (filter (\<lambda>i. oi_product_id i = pid) items))
       (find (\<lambda>p. product_id p = pid) ps)"
proof (induction items arbitrary: ps)
  case Nil
  then show ?case by (simp add: option.map_ident)
next
  case (Cons item rest)
  show ?case
    by (simp add: upd_first_guarded Cons.IH find_line_update option.map_comp comp_def)
qed

lemma stock_qty_fold_restore:
  "stock_qty (fold restore_line items p) = stock_qty p + sum_list (map quantity items)"
  by (induction items arbitrary: p) (simp_all add: stock_qty_restore_line)

lemma order_get_by_idD:
  "order_get_by_id d oid = Some order \<Longrightarrow>
     oid \<noteq> [] \<and> find (\<lambda>r. order_id r = oid) (orders d) = Some order \<and> order_id order = oid"
  by (auto simp: order_get_by_id_def find_Some_iff split: if_splits)

lemma clear_cart_frame:
  "orders (snd (clear_cart uid d)) = orders d"
  "products (snd (clear_cart uid d)) = products d"
  "payments (snd (clear_cart uid d)) = payments d"
  "carts (snd (clear_cart uid d)) = carts d"
  "order_items (snd (clear_cart uid d)) = order_items d"
  by (simp_all add: clear_cart_def split: option.splits)

lemma clear_cart_empties:
  "cart_get_by_user_id (snd (clear_cart uid d)) uid = Some c
     \<Longrightarrow> cart_items_of (snd (clear_cart uid d)) c = []"
  by (auto simp: clear_cart_def cart_get_by_user_id_def cart_items_of_def filter_empty_conv
           split: option.splits if_splits)


lemma commit_order_frame:
  "products (commit_order x d) = products d"
  "payments (commit_order x d) = payments d"
  "carts (commit_order x d) = carts d"
  "cart_items (commit_order x d) = cart_items d"
  "order_items (commit_order x d) = order_items d"
  by (simp_all add: commit_order_def)

lemma commit_order_cart:
  "cart_get_by_user_id (commit_order x d) uid = cart_get_by_user_id d uid"
  "cart_items_of (commit_order x d) c = cart_items_of d c"
  by (simp_all add: cart_get_by_user_id_def cart_items_of_def commit_order_frame)

lemma order_get_by_id_commit:
  assumes "order_get_by_id d oid = Some order" "order_id x = oid"
  shows "order_get_by_id (commit_order x d) oid = Some x"
proof -
  from order_get_by_idD [OF assms(1)]
  have f: "oid \<noteq> []" "find (\<lambda>r. order_id r = oid) (orders d) = Some order" by simp_all
  from find_upd_first_same [OF f(2), of "\<lambda>r. x"] assms(2) f(1)
  show ?thesis by (simp add: order_get_by_id_def commit_order_def)
qed

lemma pay_order_success:
  assumes o: "order_get_by_id d oid = Some order"
    and u: "order_user_id order = uid"
    and st: "status order = CREE"
    and val: "run_validations v payment_data = None"
    and gw: "gateway e = Some gw"
    and ok: "success (charge_card gw (outcome e) (tx_hex e) (ch_hex e)
                       (sanitize_numeric v (card_number payment_data)))"
  obtains payment where
    "pay_id payment = new_payment_id e" "pay_status payment = ''SUCCEEDED''"
    "pay_order_id payment = oid" "amount_cents payment = order_total_cents d oid"
    "pay_order v e threshold oid payment_data uid d =
       (Inr \<lparr>pr_payment_id = new_payment_id e, pr_status = ''SUCCEEDED'',
             pr_amount_cents = order_total_cents d oid\<rparr>,
        commit_order (order\<lparr>status := PAYEE, payment_id := Some (new_payment_id e)\<rparr>)
          (snd (clear_cart uid
             (d\<lparr>payments := payments d @ [payment],
                products := decrement_stock threshold (order_items_of d oid) (products d)\<rparr>))))"
proof -
  from order_get_by_idD [OF o]
  have f: "find (\<lambda>r. order_id r = oid) (orders d) = Some order" "order_id order = oid"
    by simp_all
  define res where "res = charge_card gw (outcome e) (tx_hex e) (ch_hex e)
                       (sanitize_numeric v (card_number payment_data))"
  define payment where "payment =
     \<lparr>pay_id = new_payment_id e, pay_order_id = oid, amount_cents = order_total_cents d oid,
      pay_status = ''SUCCEEDED'',
      payment_method = ''CARD'', card_last4 = last4 (sanitize_numeric v (card_number payment_data)),
      postal_code = sanitize_optional v (in_postal_code payment_data),
      phone = sanitize_optional v (in_phone payment_data),
      street_number = sanitize_optional v (in_street_number payment_data),
      street_name = cleaned_street_name (in_street_name payment_data),
      charge_id = cr_charge_id res\<rparr>"
  define d3 where "d3 = snd (clear_cart uid
             (d\<lparr>payments := payments d @ [payment],
                products := decrement_stock threshold (order_items_of d oid) (products d)\<rparr>))"
  define order1 where "order1 = order\<lparr>status := PAYEE, payment_id := Some (new_payment_id e)\<rparr>"
  have "find (\<lambda>r. order_id r = order_id order1) (orders d3) = Some order"
    using f by (simp add: d3_def order1_def clear_cart_frame)
  from order_update_result [OF this]
  have upd: "order_update order1 d3 = Inr (order1, commit_order order1 d3)" .
  have oi: "order_items_of (d\<lparr>payments := payments d @ [payment]\<rparr>) oid = order_items_of d oid"
    by (simp add: order_items_of_def)
  have tot: "order_total_cents d (order_id order) = order_total_cents d oid"
    using f by simp
  have "pay_order v e threshold oid payment_data uid d =
       (Inr \<lparr>pr_payment_id = new_payment_id e, pr_status = ''SUCCEEDED'',
             pr_amount_cents = order_total_cents d oid\<rparr>, commit_order order1 d3)"
    unfolding pay_order_def
    using o u st val gw ok upd f(2) oi
    by (simp add: Let_def payment_create_def d3_def order1_def payment_def res_def)
  then show ?thesis
    using that [of payment] by (simp add: payment_def d3_def order1_def)
qed


lemma order_update_eq:
  "order_update x d =
     (case find (\<lambda>r. order_id r = order_id x) (orders d) of
        None \<Rightarrow> Inl InvalidRequestError
      | Some row \<Rightarrow> Inr (x, commit_order x d))"
  by (cases "find (\<lambda>r. order_id r = order_id x) (orders d)")
     (simp_all add: order_update_result order_update_none)

lemma pay_order_carts:
  "carts (snd (pay_order v e threshold oid payment_data uid d)) = carts d"
  by (simp add: pay_order_def Let_def payment_create_def order_update_eq clear_cart_frame
      commit_order_frame split: option.splits)

lemma pay_order_not_CREE:
  assumes "order_get_by_id d oid = Some order" "order_user_id order = uid" "status order \<noteq> CREE"
  shows "pay_order v e threshold oid payment_data uid d =
           (Inl (HTTPException 400 ''Commande deja payee ou traitee''), d)"
  using assms by (simp add: pay_order_def)

text \<open>
  Claim C1: for an order in status CREE that the caller owns, a payment that passes the
  validations and that the gateway accepts returns; afterwards every product carries the
  stock obtained by applying, for each line of the order on that product in turn, the
  decrement floored at zero; the cart that the repository finds for the payer has no
  line; the order is in status PAYEE with the id of the payment row just written, whose
  status is SUCCEEDED; and any further payment request on that order by that caller is
  refused with the already-paid error and changes nothing.
\<close>

theorem pay_order_effects:
  assumes o: "order_get_by_id d oid = Some order"
    and u: "order_user_id order = uid"
    and st: "status order = CREE"
    and val: "run_validations v payment_data = None"
    and gw: "gateway e = Some gw"
    and ok: "success (charge_card gw (outcome e) (tx_hex e) (ch_hex e)
                       (sanitize_numeric v (card_number payment_data)))"
  shows "\<exists>resp d'. pay_order v e threshold oid payment_data uid d = (Inr resp, d')
     \<and> (\<forall>pid. product_get_by_id d' pid =
            map_option (fold (decrement_line threshold)
                          (filter (\<lambda>i. oi_product_id i = pid) (order_items_of d oid)))
              (product_get_by_id d pid))
     \<and> (\<forall>item p. stock_qty (decrement_line threshold item p)
                    = max 0 (stock_qty p - quantity item))
     \<and> (\<forall>c. cart_get_by_user_id d' uid = Some c \<longrightarrow> cart_items_of d' c = [])
     \<and> order_get_by_id d' oid
          = Some (order\<lparr>status := PAYEE, payment_id := Some (pr_payment_id resp)\<rparr>)
     \<and> (\<exists>payment. payments d' = payments d @ [payment] \<and> pay_id payment = pr_payment_id resp
            \<and> pay_status payment = ''SUCCEEDED'' \<and> pay_order_id payment = oid)
     \<and> (\<forall>v2 e2 threshold2 payment_data2.
            pay_order v2 e2 threshold2 oid payment_data2 uid d'
              = (Inl (HTTPException 400 ''Commande deja payee ou traitee''), d'))"
proof -
  from pay_order_success [OF o u st val gw ok, of threshold] obtain payment where
    p: "pay_id payment = new_payment_id e" "pay_status payment = ''SUCCEEDED''"
       "pay_order_id payment = oid"
    and r: "pay_order v e threshold oid payment_data uid d =
       (Inr \<lparr>pr_payment_id = new_payment_id e, pr_status = ''SUCCEEDED'',
             pr_amount_cents = order_total_cents d oid\<rparr>,
        commit_order (order\<lparr>status := PAYEE, payment_id := Some (new_payment_id e)\<rparr>)
          (snd (clear_cart uid
             (d\<lparr>payments := payments d @ [payment],
                products := decrement_stock threshold (order_items_of d oid) (products d)\<rparr>))))"
    by blast
  define d2 where "d2 = d\<lparr>payments := payments d @ [payment],
                products := decrement_stock threshold (order_items_of d oid) (products d)\<rparr>"
  define order1 where "order1 = order\<lparr>status := PAYEE, payment_id := Some (new_payment_id e)\<rparr>"
  define d' where "d' = commit_order order1 (snd (clear_cart uid d2))"
  from order_get_by_idD [OF o] have oid: "order_id order = oid" by simp
  have o2: "order_get_by_id (snd (clear_cart uid d2)) oid = Some order"
    using order_get_by_idD [OF o] by (simp add: order_get_by_id_def clear_cart_frame d2_def)
  have g: "order_get_by_id d' oid = Some order1"
    unfolding d'_def by (rule order_get_by_id_commit [OF o2]) (simp add: order1_def oid)
  have stock: "\<And>pid. product_get_by_id d' pid =
            map_option (fold (decrement_line threshold)
                          (filter (\<lambda>i. oi_product_id i = pid) (order_items_of d oid)))
              (product_get_by_id d pid)"
    by (simp add: product_get_by_id_def d'_def commit_order_frame clear_cart_frame d2_def
        find_decrement_stock)
  have cart: "\<And>c. cart_get_by_user_id d' uid = Some c \<Longrightarrow> cart_items_of d' c = []"
  proof -
    fix c assume "cart_get_by_user_id d' uid = Some c"
    then have "cart_get_by_user_id (snd (clear_cart uid d2)) uid = Some c"
      by (simp add: d'_def commit_order_cart)
    from clear_cart_empties [OF this] show "cart_items_of d' c = []"
      by (simp add: d'_def commit_order_cart)
  qed
  have pays: "payments d' = payments d @ [payment]"
    by (simp add: d'_def commit_order_frame clear_cart_frame d2_def)
  have again: "\<And>v2 e2 threshold2 payment_data2.
            pay_order v2 e2 threshold2 oid payment_data2 uid d'
              = (Inl (HTTPException 400 ''Commande deja payee ou traitee''), d')"
    by (rule pay_order_not_CREE [OF g]) (simp_all add: order1_def u)
  have res: "pay_order v e threshold oid payment_data uid d =
       (Inr \<lparr>pr_payment_id = new_payment_id e, pr_status = ''SUCCEEDED'',
             pr_amount_cents = order_total_cents d oid\<rparr>, d')"
    using r by (simp add: d'_def order1_def d2_def)
  show ?thesis
    apply (rule exI [of _ "\<lparr>pr_payment_id = new_payment_id e, pr_status = ''SUCCEEDED'',
             pr_amount_cents = order_total_cents d oid\<rparr>"])
    apply (rule exI [of _ d'])
    using res stock cart g pays p again
    by (simp add: stock_qty_decrement_line order1_def)
qed


text \<open>
  On the example database: two units of a product with stock 10 leave stock 8, the cart
  is emptied, the order is PAYEE, and paying again fails.
\<close>

theorem pay_order_effects_witness:
  "\<exists>resp d'. pay_order sample_validations sample_gateway_env 0 ''o1'' sample_pay_in ''u1''
                 sample_db = (Inr resp, d')
     \<and> map_option stock_qty (product_get_by_id sample_db ''p1'') = Some 10
     \<and> map_option stock_qty (product_get_by_id d' ''p1'') = Some 8
     \<and> map_option status (order_get_by_id d' ''o1'') = Some PAYEE
     \<and> map_option payment_id (order_get_by_id d' ''o1'') = Some (Some (pr_payment_id resp))
     \<and> map_option (cart_items_of sample_db) (cart_get_by_user_id sample_db ''u1'')
          = Some [\<lparr>ci_cart_id = ''c1'', ci_product_id = ''p1'', ci_quantity = 2\<rparr>]
     \<and> map_option (cart_items_of d') (cart_get_by_user_id d' ''u1'') = Some []
     \<and> pay_order sample_validations sample_gateway_env 0 ''o1'' sample_pay_in ''u1'' d'
          = (Inl (HTTPException 400 ''Commande deja payee ou traitee''), d')"
proof -
  have a1: "order_get_by_id sample_db ''o1'' = Some (sample_order ''o1'' CREE None)"
    by (simp add: order_get_by_id_def sample_db_def sample_order_def)
  have a2: "order_user_id (sample_order ''o1'' CREE None) = ''u1''"
    by (simp add: sample_order_def)
  have a3: "status (sample_order ''o1'' CREE None) = CREE"
    by (simp add: sample_order_def)
  have a4: "run_validations sample_validations sample_pay_in = None"
    by (simp add: run_validations_def sample_validations_def sample_pay_in_def
        check_optional_def truthy_def)
  have a5: "gateway sample_gateway_env = Some \<lparr>use_stripe = False, use_simulation = True\<rparr>"
    by (simp add: sample_gateway_env_def PaymentGateway_init_def)
  have a6: "success (charge_card \<lparr>use_stripe = False, use_simulation = True\<rparr>
              (outcome sample_gateway_env) (tx_hex sample_gateway_env) (ch_hex sample_gateway_env)
              (sanitize_numeric sample_validations (card_number sample_pay_in)))"
    by (simp add: charge_card_def simulate_payment_def card_number_clean_def remove_char_def
        declined_cards_def success_cards_def accepted_def sample_validations_def
        sample_pay_in_def)
  from pay_order_effects [OF a1 a2 a3 a4 a5 a6, of 0] obtain resp d' where
    r: "pay_order sample_validations sample_gateway_env 0 ''o1'' sample_pay_in ''u1''
                 sample_db = (Inr resp, d')"
    and stock: "\<forall>pid. product_get_by_id d' pid =
            map_option (fold (decrement_line 0)
                          (filter (\<lambda>i. oi_product_id i = pid) (order_items_of sample_db ''o1'')))
              (product_get_by_id sample_db pid)"
    and cart: "\<forall>c. cart_get_by_user_id d' ''u1'' = Some c \<longrightarrow> cart_items_of d' c = []"
    and ord: "order_get_by_id d' ''o1''
          = Some ((sample_order ''o1'' CREE None)
                    \<lparr>status := PAYEE, payment_id := Some (pr_payment_id resp)\<rparr>)"
    and again: "\<forall>v2 e2 threshold2 payment_data2.
            pay_order v2 e2 threshold2 ''o1'' payment_data2 ''u1'' d'
              = (Inl (HTTPException 400 ''Commande deja payee ou traitee''), d')"
    by blast
  have s0: "map_option stock_qty (product_get_by_id sample_db ''p1'') = Some 10"
    by (simp add: product_get_by_id_def sample_db_def)
  have s1: "map_option stock_qty (product_get_by_id d' ''p1'') = Some 8"
    using stock
    by (simp add: product_get_by_id_def sample_db_def order_items_of_def decrement_line_def)
  have c0: "map_option (cart_items_of sample_db) (cart_get_by_user_id sample_db ''u1'')
          = Some [\<lparr>ci_cart_id = ''c1'', ci_product_id = ''p1'', ci_quantity = 2\<rparr>]"
    by (simp add: cart_get_by_user_id_def cart_items_of_def sample_db_def)
  have "carts d' = carts sample_db"
    using r pay_order_carts [of sample_validations sample_gateway_env 0 "''o1''" sample_pay_in
        "''u1''" sample_db] by simp
  then have "cart_get_by_user_id d' ''u1'' = Some \<lparr>cart_id = ''c1'', cart_user_id = ''u1''\<rparr>"
    by (simp add: cart_get_by_user_id_def sample_db_def)
  with cart have c1: "map_option (cart_items_of d') (cart_get_by_user_id d' ''u1'') = Some []"
    by simp
  show ?thesis
    using r s0 s1 c0 c1 ord again by auto
qed

subsection \<open>Cancellation\<close>

lemma mark_refunded_all:
  assumes "p \<in> set (mark_refunded oid ps)" "pay_order_id p = oid"
  shows "pay_status p = ''REFUNDED''"
proof -
  from assms(1)
  have "p \<in> (\<lambda>q. if pay_order_id q = oid then q\<lparr>pay_status := ''REFUNDED''\<rparr> else q) ` set ps"
    unfolding mark_refunded_def set_map .
  then obtain x where x: "x \<in> set ps"
    "p = (if pay_order_id x = oid then x\<lparr>pay_status := ''REFUNDED''\<rparr> else x)"
    by blast
  show ?thesis
  proof (cases "pay_order_id x = oid")
    case True
    with x(2) have "p = x\<lparr>pay_status := ''REFUNDED''\<rparr>" by simp
    then show ?thesis by simp
  next
    case False
    with x(2) have "p = x" by simp
    with False assms(2) show ?thesis by simp
  qed
qed

lemma order_items_of_frame:
  "order_items_of (d\<lparr>payments := ps\<rparr>) oid = order_items_of d oid"
  by (simp add: order_items_of_def)


lemma mark_refunded_none:
  "payment_get_by_order_id d oid = [] \<Longrightarrow> mark_refunded oid (payments d) = payments d"
  unfolding payment_get_by_order_id_def mark_refunded_def filter_empty_conv
  by (rule map_idI) simp

lemma cancel_body_paid:
  assumes o: "order_get_by_id d oid = Some order"
    and st: "status order = PAYEE"
  shows "\<exists>resp. cancel_body msg now oid order d =
           (Inr resp,
            commit_order
              (order\<lparr>status := REMBOURSEE, refunded_at := Some now, cancelled_at := Some now\<rparr>)
              (d\<lparr>payments := mark_refunded oid (payments d),
                 products := restore_stock (order_items_of d oid) (products d)\<rparr>))"
proof -
  from order_get_by_idD [OF o]
  have f: "find (\<lambda>r. order_id r = oid) (orders d) = Some order" "order_id order = oid"
    by simp_all
  define order2 where
    "order2 = order\<lparr>status := REMBOURSEE, refunded_at := Some now, cancelled_at := Some now\<rparr>"
  define d2 where "d2 = d\<lparr>payments := mark_refunded oid (payments d),
                 products := restore_stock (order_items_of d oid) (products d)\<rparr>"
  have i: "order_id order2 = oid" by (simp add: order2_def f(2))
  have "find (\<lambda>r. order_id r = order_id order2) (orders d2) = Some order"
    unfolding i using f(1) by (simp add: d2_def)
  from order_update_result [OF this]
  have upd: "order_update order2 d2 = Inr (order2, commit_order order2 d2)" .
  show ?thesis
  proof (cases "payment_get_by_order_id d oid = []")
    case True
    have "d\<lparr>products := restore_stock (order_items_of d oid) (products d)\<rparr> = d2"
      by (simp add: d2_def mark_refunded_none [OF True])
    then have "cancel_body msg now oid order d =
           (Inr \<lparr>message = msg, refund_amount_cents = None\<rparr>, commit_order order2 d2)"
      using st True upd
      by (simp add: cancel_body_def Let_def f(2) order2_def [symmetric])
    then show ?thesis unfolding order2_def d2_def by blast
  next
    case False
    have "d\<lparr>payments := mark_refunded oid (payments d),
            products := restore_stock (order_items_of d oid) (products d)\<rparr> = d2"
      by (simp add: d2_def)
    then have "cancel_body msg now oid order d =
           (Inr \<lparr>message = msg,
                 refund_amount_cents =
                   Some (sum_list (map amount_cents (payment_get_by_order_id d oid)))\<rparr>,
            commit_order order2 d2)"
      using st False upd
      by (simp add: cancel_body_def Let_def f(2) order2_def [symmetric] order_items_of_frame)
    then show ?thesis unfolding order2_def d2_def by blast
  qed
qed


lemma cancel_body_unpaid:
  assumes o: "order_get_by_id d oid = Some order"
    and st: "status order = CREE \<or> status order = VALIDEE"
  shows "cancel_body msg now oid order d =
           (Inr \<lparr>message = msg, refund_amount_cents = None\<rparr>,
            commit_order (order\<lparr>status := ANNULEE, cancelled_at := Some now\<rparr>)
              (d\<lparr>products := restore_stock (order_items_of d oid) (products d)\<rparr>))"
proof -
  from order_get_by_idD [OF o]
  have f: "find (\<lambda>r. order_id r = oid) (orders d) = Some order" "order_id order = oid"
    by simp_all
  define order2 where "order2 = order\<lparr>status := ANNULEE, cancelled_at := Some now\<rparr>"
  define d2 where "d2 = d\<lparr>products := restore_stock (order_items_of d oid) (products d)\<rparr>"
  have i: "order_id order2 = oid" by (simp add: order2_def f(2))
  have "find (\<lambda>r. order_id r = order_id order2) (orders d2) = Some order"
    unfolding i using f(1) by (simp add: d2_def)
  from order_update_result [OF this]
  have upd: "order_update order2 d2 = Inr (order2, commit_order order2 d2)" .
  have n: "status order \<noteq> PAYEE" "status order \<in> {CREE, VALIDEE, PAYEE}" using st by auto
  have "cancel_body msg now oid order d =
           (Inr \<lparr>message = msg, refund_amount_cents = None\<rparr>, commit_order order2 d2)"
    using n upd
    by (simp add: cancel_body_def Let_def f(2) order2_def [symmetric] d2_def [symmetric])
  then show ?thesis unfolding order2_def d2_def .
qed

lemma cancel_body_rejected:
  "status order \<notin> {CREE, VALIDEE, PAYEE} \<Longrightarrow>
     cancel_body msg now oid order d =
       (Inl (HTTPException 400 ''Cette commande ne peut pas etre annulee''), d)"
  by (simp add: cancel_body_def)

lemma restored_stock:
  assumes "product_get_by_id d pid = Some p"
    and "products d' = restore_stock items (products d)"
  shows "\<exists>p'. product_get_by_id d' pid = Some p'
           \<and> stock_qty p' = stock_qty p
                + sum_list (map quantity (filter (\<lambda>i. oi_product_id i = pid) items))"
  using assms
  by (simp add: product_get_by_id_def find_restore_stock stock_qty_fold_restore)

lemma cancel_order_owned:
  assumes "order_get_by_id d oid = Some order" "order_user_id order = uid"
  shows "cancel_order now oid uid d = cancel_body ''Commande annulee avec succes'' now oid order d"
  using assms by (simp add: cancel_order_def)

text \<open>
  Claim C2: for an order that the caller owns, cancelling it in status PAYEE returns,
  adds to the stock of every product the quantities of the order's lines on it, sets
  the status of every payment row of the order to REFUNDED and leaves the order in
  status REMBOURSEE; cancelling it in status CREE (or VALIDEE) returns, leaves every
  payment row as it is and leaves the order in status ANNULEE; in any other status the
  request is refused and the database is unchanged.
\<close>

theorem cancel_order_effects:
  assumes o: "order_get_by_id d oid = Some order" and u: "order_user_id order = uid"
  shows
   "(status order = PAYEE \<longrightarrow>
       (\<exists>resp d'. cancel_order now oid uid d = (Inr resp, d')
          \<and> (\<forall>pid p. product_get_by_id d pid = Some p \<longrightarrow>
                (\<exists>p'. product_get_by_id d' pid = Some p'
                   \<and> stock_qty p' = stock_qty p
                        + sum_list (map quantity
                            (filter (\<lambda>i. oi_product_id i = pid) (order_items_of d oid)))))
          \<and> payments d' = mark_refunded oid (payments d)
          \<and> (\<forall>p \<in> set (payment_get_by_order_id d' oid). pay_status p = ''REFUNDED'')
          \<and> map_option status (order_get_by_id d' oid) = Some REMBOURSEE))
    \<and> (status order = CREE \<or> status order = VALIDEE \<longrightarrow>
       (\<exists>resp d'. cancel_order now oid uid d = (Inr resp, d')
          \<and> payments d' = payments d
          \<and> map_option status (order_get_by_id d' oid) = Some ANNULEE))
    \<and> (status order \<notin> {CREE, VALIDEE, PAYEE} \<longrightarrow>
          cancel_order now oid uid d
            = (Inl (HTTPException 400 ''Cette commande ne peut pas etre annulee''), d))"
proof (intro conjI impI)
  assume st: "status order = PAYEE"
  define order2 where
    "order2 = order\<lparr>status := REMBOURSEE, refunded_at := Some now, cancelled_at := Some now\<rparr>"
  define d2 where "d2 = d\<lparr>payments := mark_refunded oid (payments d),
                 products := restore_stock (order_items_of d oid) (products d)\<rparr>"
  define d' where "d' = commit_order order2 d2"
  from cancel_body_paid [OF o st, of "''Commande annulee avec succes''" now]
  obtain resp where r: "cancel_order now oid uid d = (Inr resp, d')"
    unfolding cancel_order_owned [OF o u] d'_def order2_def d2_def by blast
  from order_get_by_idD [OF o] have i: "order_id order = oid" by simp
  have o2: "order_get_by_id d2 oid = Some order"
    using order_get_by_idD [OF o] by (simp add: order_get_by_id_def d2_def)
  have g: "order_get_by_id d' oid = Some order2"
    unfolding d'_def by (rule order_get_by_id_commit [OF o2]) (simp add: order2_def i)
  have pr: "products d' = restore_stock (order_items_of d oid) (products d)"
    by (simp add: d'_def commit_order_frame d2_def)
  have py: "payments d' = mark_refunded oid (payments d)"
    by (simp add: d'_def commit_order_frame d2_def)
  have rf: "\<forall>p \<in> set (payment_get_by_order_id d' oid). pay_status p = ''REFUNDED''"
  proof
    fix p assume "p \<in> set (payment_get_by_order_id d' oid)"
    then have "p \<in> set (mark_refunded oid (payments d))" "pay_order_id p = oid"
      unfolding payment_get_by_order_id_def py by simp_all
    then show "pay_status p = ''REFUNDED''" by (rule mark_refunded_all)
  qed
  have stock: "\<forall>pid p. product_get_by_id d pid = Some p \<longrightarrow>
                (\<exists>p'. product_get_by_id d' pid = Some p'
                   \<and> stock_qty p' = stock_qty p
                        + sum_list (map quantity
                            (filter (\<lambda>i. oi_product_id i = pid) (order_items_of d oid))))"
    using restored_stock [OF _ pr] by blast
  have s: "map_option status (order_get_by_id d' oid) = Some REMBOURSEE"
    unfolding g by (simp add: order2_def)
  from r stock py rf s
  show "\<exists>resp d'. cancel_order now oid uid d = (Inr resp, d')
          \<and> (\<forall>pid p. product_get_by_id d pid = Some p \<longrightarrow>
                (\<exists>p'. product_get_by_id d' pid = Some p'
                   \<and> stock_qty p' = stock_qty p
                        + sum_list (map quantity
                            (filter (\<lambda>i. oi_product_id i = pid) (order_items_of d oid)))))
          \<and> payments d' = mark_refunded oid (payments d)
          \<and> (\<forall>p \<in> set (payment_get_by_order_id d' oid). pay_status p = ''REFUNDED'')
          \<and> map_option status (order_get_by_id d' oid) = Some REMBOURSEE"
    by blast
next
  assume st: "status order = CREE \<or> status order = VALIDEE"
  define order2 where "order2 = order\<lparr>status := ANNULEE, cancelled_at := Some now\<rparr>"
  define d2 where "d2 = d\<lparr>products := restore_stock (order_items_of d oid) (products d)\<rparr>"
  define d' where "d' = commit_order order2 d2"
  have r: "cancel_order now oid uid d
             = (Inr \<lparr>message = ''Commande annulee avec succes'', refund_amount_cents = None\<rparr>, d')"
    unfolding cancel_order_owned [OF o u] d'_def order2_def d2_def
    by (rule cancel_body_unpaid [OF o st])
  from order_get_by_idD [OF o] have i: "order_id order = oid" by simp
  have o2: "order_get_by_id d2 oid = Some order"
    using order_get_by_idD [OF o] by (simp add: order_get_by_id_def d2_def)
  have g: "order_get_by_id d' oid = Some order2"
    unfolding d'_def by (rule order_get_by_id_commit [OF o2]) (simp add: order2_def i)
  have py: "payments d' = payments d"
    by (simp add: d'_def commit_order_frame d2_def)
  have s: "map_option status (order_get_by_id d' oid) = Some ANNULEE"
    unfolding g by (simp add: order2_def)
  from r py s
  show "\<exists>resp d'. cancel_order now oid uid d = (Inr resp, d')
          \<and> payments d' = payments d
          \<and> map_option status (order_get_by_id d' oid) = Some ANNULEE"
    by blast
next
  assume "status order \<notin> {CREE, VALIDEE, PAYEE}"
  then show "cancel_order now oid uid d
            = (Inl (HTTPException 400 ''Cette commande ne peut pas etre annulee''), d)"
    unfolding cancel_order_owned [OF o u] by (rule cancel_body_rejected)
qed


text \<open>
  On the example database: the paid order of three units raises the stock from 10 to
  13 and its payment is REFUNDED; the open order ends ANNULEE; the delivered one is
  refused.
\<close>

theorem cancel_order_effects_witness:
  "(\<exists>resp d'. cancel_order 200 ''o2'' ''u1'' sample_db = (Inr resp, d')
      \<and> map_option stock_qty (product_get_by_id d' ''p1'') = Some 13
      \<and> map pay_status (payment_get_by_order_id d' ''o2'') = [''REFUNDED'']
      \<and> map_option status (order_get_by_id d' ''o2'') = Some REMBOURSEE)
   \<and> (\<exists>resp d'. cancel_order 200 ''o1'' ''u1'' sample_db = (Inr resp, d')
      \<and> payments d' = payments sample_db
      \<and> map_option status (order_get_by_id d' ''o1'') = Some ANNULEE)
   \<and> cancel_order 200 ''o3'' ''u1'' sample_db
        = (Inl (HTTPException 400 ''Cette commande ne peut pas etre annulee''), sample_db)"
proof -
  have o1: "order_get_by_id sample_db ''o1'' = Some (sample_order ''o1'' CREE None)"
    by (simp add: order_get_by_id_def sample_db_def sample_order_def)
  have o2: "order_get_by_id sample_db ''o2'' = Some (sample_order ''o2'' PAYEE (Some ''y2''))"
    by (simp add: order_get_by_id_def sample_db_def sample_order_def)
  have o3: "order_get_by_id sample_db ''o3'' = Some (sample_order ''o3'' LIVREE (Some ''y3''))"
    by (simp add: order_get_by_id_def sample_db_def sample_order_def)
  have u: "\<And>x st y. order_user_id (sample_order x st y) = ''u1''"
    by (simp add: sample_order_def)
  have s: "\<And>x st y. status (sample_order x st y) = st" by (simp add: sample_order_def)
  have p1: "product_get_by_id sample_db ''p1''
              = Some \<lparr>product_id = ''p1'', name = ''Savon'', price_cents = 500, stock_qty = 10,
                      active = True\<rparr>"
    by (simp add: product_get_by_id_def sample_db_def)
  have q: "sum_list (map quantity
             (filter (\<lambda>i. oi_product_id i = ''p1'') (order_items_of sample_db ''o2''))) = 3"
    by (simp add: order_items_of_def sample_db_def)
  from cancel_order_effects [OF o2 u, of 200] s
  obtain resp d' where a:
    "cancel_order 200 ''o2'' ''u1'' sample_db = (Inr resp, d')"
    "\<forall>pid p. product_get_by_id sample_db pid = Some p \<longrightarrow>
       (\<exists>p'. product_get_by_id d' pid = Some p'
          \<and> stock_qty p' = stock_qty p
               + sum_list (map quantity
                   (filter (\<lambda>i. oi_product_id i = pid) (order_items_of sample_db ''o2''))))"
    "payments d' = mark_refunded ''o2'' (payments sample_db)"
    "map_option status (order_get_by_id d' ''o2'') = Some REMBOURSEE"
    by blast
  from a(2) p1 obtain p' where "product_get_by_id d' ''p1'' = Some p'"
    "stock_qty p' = 10 + sum_list (map quantity
                   (filter (\<lambda>i. oi_product_id i = ''p1'') (order_items_of sample_db ''o2'')))"
    by fastforce
  then have k: "map_option stock_qty (product_get_by_id d' ''p1'') = Some 13"
    using q by simp
  have m: "map pay_status (payment_get_by_order_id d' ''o2'') = [''REFUNDED'']"
    unfolding payment_get_by_order_id_def a(3)
    by (simp add: mark_refunded_def sample_db_def sample_payment_def)
  have first: "\<exists>resp d'. cancel_order 200 ''o2'' ''u1'' sample_db = (Inr resp, d')
      \<and> map_option stock_qty (product_get_by_id d' ''p1'') = Some 13
      \<and> map pay_status (payment_get_by_order_id d' ''o2'') = [''REFUNDED'']
      \<and> map_option status (order_get_by_id d' ''o2'') = Some REMBOURSEE"
  proof (intro exI conjI)
    show "cancel_order 200 ''o2'' ''u1'' sample_db = (Inr resp, d')" by (rule a(1))
    show "map_option stock_qty (product_get_by_id d' ''p1'') = Some 13" by (rule k)
    show "map pay_status (payment_get_by_order_id d' ''o2'') = [''REFUNDED'']" by (rule m)
    show "map_option status (order_get_by_id d' ''o2'') = Some REMBOURSEE" by (rule a(4))
  qed
  from cancel_order_effects [OF o1 u, of 200] s
  obtain resp1 d1 where b:
    "cancel_order 200 ''o1'' ''u1'' sample_db = (Inr resp1, d1)"
    "payments d1 = payments sample_db"
    "map_option status (order_get_by_id d1 ''o1'') = Some ANNULEE"
    by blast
  have second: "\<exists>resp d'. cancel_order 200 ''o1'' ''u1'' sample_db = (Inr resp, d')
      \<and> payments d' = payments sample_db
      \<and> map_option status (order_get_by_id d' ''o1'') = Some ANNULEE"
  proof (intro exI conjI)
    show "cancel_order 200 ''o1'' ''u1'' sample_db = (Inr resp1, d1)" by (rule b(1))
    show "payments d1 = payments sample_db" by (rule b(2))
    show "map_option status (order_get_by_id d1 ''o1'') = Some ANNULEE" by (rule b(3))
  qed
  have third: "cancel_order 200 ''o3'' ''u1'' sample_db
        = (Inl (HTTPException 400 ''Cette commande ne peut pas etre annulee''), sample_db)"
    using cancel_order_effects [OF o3 u, of 200] s by simp
  show ?thesis by (intro conjI first second third)
qed

subsection \<open>What each endpoint writes to the order table\<close>

lemma one_order_written_refl: "one_order_written T rows rows"
  by (simp add: one_order_written_def)

lemma one_order_written_commit:
  assumes "find (\<lambda>r. order_id r = order_id x) (orders d) = Some order"
    and "(status order, status x) \<in> set T"
    and "paid_at x = paid_at order" and "created_at x = created_at order"
    and "orders d = rows"
  shows "one_order_written T rows (orders (commit_order x d))"
  unfolding one_order_written_def commit_order_def using assms by auto

lemma pay_order_orders:
  "one_order_written [(CREE, PAYEE)] (orders d)
     (orders (snd (pay_order v e threshold oid payment_data uid d)))"
proof (cases "order_get_by_id d oid")
  case None
  then show ?thesis by (simp add: pay_order_def one_order_written_refl)
next
  case (Some order)
  from order_get_by_idD [OF Some]
  have f: "find (\<lambda>r. order_id r = oid) (orders d) = Some order" "order_id order = oid"
    by simp_all
  show ?thesis
  proof (cases "order_user_id order = uid \<and> status order = CREE")
    case False
    with Some show ?thesis by (auto simp: pay_order_def one_order_written_refl)
  next
    case True
    have c: "\<And>x d3. orders d3 = orders d \<Longrightarrow>
              one_order_written [(CREE, PAYEE)] (orders d)
                (orders (commit_order (order\<lparr>status := PAYEE, payment_id := x\<rparr>) d3))"
      by (rule one_order_written_commit [where order = order]) (simp_all add: f True)
    show ?thesis
      using Some True f
      by (simp add: pay_order_def Let_def payment_create_def order_update_eq clear_cart_frame
          one_order_written_refl c split: option.splits)
  qed
qed


lemma cancel_body_orders:
  assumes o: "order_get_by_id d oid = Some order"
  shows "one_order_written [(CREE, ANNULEE), (VALIDEE, ANNULEE), (PAYEE, REMBOURSEE)] (orders d)
           (orders (snd (cancel_body msg now oid order d)))"
proof -
  from order_get_by_idD [OF o]
  have f: "find (\<lambda>r. order_id r = oid) (orders d) = Some order" "order_id order = oid"
    by simp_all
  have c: "\<And>x d3. orders d3 = orders d \<Longrightarrow> order_id x = oid \<Longrightarrow>
              (status order, status x)
                \<in> set [(CREE, ANNULEE), (VALIDEE, ANNULEE), (PAYEE, REMBOURSEE)] \<Longrightarrow>
              paid_at x = paid_at order \<Longrightarrow> created_at x = created_at order \<Longrightarrow>
              one_order_written [(CREE, ANNULEE), (VALIDEE, ANNULEE), (PAYEE, REMBOURSEE)]
                (orders d) (orders (commit_order x d3))"
    by (rule one_order_written_commit [where order = order]) (simp_all add: f)
  show ?thesis
  proof (cases "status order \<in> {CREE, VALIDEE, PAYEE}")
    case False
    then show ?thesis by (simp add: cancel_body_def one_order_written_refl)
  next
    case True
    then show ?thesis
      using f
      by (auto simp: cancel_body_def Let_def order_update_eq one_order_written_refl
          intro!: c split: option.splits)
  qed
qed

lemma cancel_order_orders:
  "one_order_written [(CREE, ANNULEE), (VALIDEE, ANNULEE), (PAYEE, REMBOURSEE)] (orders d)
     (orders (snd (cancel_order now oid uid d)))"
  by (cases "order_get_by_id d oid")
     (simp_all add: cancel_order_def one_order_written_refl cancel_body_orders)

lemma admin_cancel_order_orders:
  "one_order_written [(CREE, ANNULEE), (VALIDEE, ANNULEE), (PAYEE, REMBOURSEE)] (orders d)
     (orders (snd (admin_cancel_order now oid d)))"
  by (cases "order_get_by_id d oid")
     (simp_all add: admin_cancel_order_def one_order_written_refl cancel_body_orders)


lemma guarded_commit:
  assumes o: "order_get_by_id d oid = Some order"
    and "orders d3 = orders d" "order_id x = oid"
    and "(status order, status x) \<in> set T"
    and "paid_at x = paid_at order" "created_at x = created_at order"
  shows "one_order_written T (orders d) (orders (commit_order x d3))"
proof -
  from order_get_by_idD [OF o]
  have f: "find (\<lambda>r. order_id r = oid) (orders d) = Some order" by simp
  show ?thesis
    by (rule one_order_written_commit [where order = order]) (simp_all add: f assms)
qed

lemma admin_validate_order_orders:
  "one_order_written [(CREE, VALIDEE), (PAYEE, VALIDEE)] (orders d)
     (orders (snd (admin_validate_order now oid d)))"
proof (cases "order_get_by_id d oid")
  case None
  then show ?thesis by (simp add: admin_validate_order_def one_order_written_refl)
next
  case (Some order)
  from order_get_by_idD [OF Some] have i: "order_id order = oid" by simp
  show ?thesis
    using Some i
    by (auto simp: admin_validate_order_def order_update_eq one_order_written_refl
        intro!: guarded_commit [OF Some] split: option.splits)
qed

lemma admin_ship_order_orders:
  "one_order_written [(VALIDEE, EXPEDIEE), (PAYEE, EXPEDIEE)] (orders d)
     (orders (snd (admin_ship_order now oid delivery_data d)))"
proof (cases "order_get_by_id d oid")
  case None
  then show ?thesis by (simp add: admin_ship_order_def one_order_written_refl)
next
  case (Some order)
  from order_get_by_idD [OF Some] have i: "order_id order = oid" by simp
  show ?thesis
    using Some i
    by (auto simp: admin_ship_order_def Let_def order_update_eq one_order_written_refl
        intro!: guarded_commit [OF Some] split: option.splits)
qed

lemma admin_mark_delivered_orders:
  "one_order_written [(EXPEDIEE, LIVREE)] (orders d)
     (orders (snd (admin_mark_delivered now oid d)))"
proof (cases "order_get_by_id d oid")
  case None
  then show ?thesis by (simp add: admin_mark_delivered_def one_order_written_refl)
next
  case (Some order)
  from order_get_by_idD [OF Some] have i: "order_id order = oid" by simp
  show ?thesis
    using Some i
    by (auto simp: admin_mark_delivered_def order_update_eq one_order_written_refl
        intro!: guarded_commit [OF Some] split: option.splits)
qed

lemma admin_refund_order_orders:
  "one_order_written [(PAYEE, REMBOURSEE), (EXPEDIEE, REMBOURSEE), (LIVREE, REMBOURSEE)]
     (orders d) (orders (snd (admin_refund_order now oid d)))"
proof (cases "order_get_by_id d oid")
  case None
  then show ?thesis by (simp add: admin_refund_order_def one_order_written_refl)
next
  case (Some order)
  from order_get_by_idD [OF Some] have i: "order_id order = oid" by simp
  show ?thesis
    using Some i
    by (auto simp: admin_refund_order_def Let_def order_update_eq one_order_written_refl
        intro!: guarded_commit [OF Some] split: option.splits)
qed

lemma view_cart_orders: "orders (snd (view_cart uid d)) = orders d"
  by (simp add: view_cart_def split: option.splits prod.splits)


lemma add_items_frame:
  "orders (snd (add_items oid its acc d)) = orders d"
  "payments (snd (add_items oid its acc d)) = payments d"
  by (induction its arbitrary: acc d)
     (simp_all add: order_add_item_def split: option.splits)

lemma checkout_orders:
  "orders (snd (checkout now new_id uid d)) = orders d
   \<or> (\<exists>x. orders (snd (checkout now new_id uid d)) = orders d @ [x]
          \<and> status x = CREE \<and> paid_at x = None)"
proof -
  have a: "\<And>oid its acc d1. snd (add_items oid its acc d1) = d2 \<Longrightarrow> orders d2 = orders d1" for d2
    using add_items_frame(1) by blast
  show ?thesis
    unfolding checkout_def
    by (auto simp: order_create_def Let_def dest!: a [OF sndI]
        split: option.splits prod.splits if_splits)
qed

lemma checkout_payments: "payments (snd (checkout now new_id uid d)) = payments d"
proof -
  have a: "\<And>oid its acc d1. snd (add_items oid its acc d1) = d2 \<Longrightarrow> payments d2 = payments d1" for d2
    using add_items_frame(2) by blast
  show ?thesis
    unfolding checkout_def
    by (auto simp: order_create_def Let_def dest!: a [OF sndI]
        split: option.splits prod.splits if_splits)
qed


lemma run_endpoint_orders:
  "one_order_written (status_transitions ep) (orders d) (orders (run_endpoint ep d))
   \<or> (\<exists>x. orders (run_endpoint ep d) = orders d @ [x] \<and> status x = CREE \<and> paid_at x = None)"
proof (cases ep)
  case (ViewCart uid)
  then show ?thesis by (simp add: view_cart_orders one_order_written_refl)
next
  case (Checkout now new_id uid)
  then show ?thesis using checkout_orders [of now new_id uid d]
    by (auto simp: one_order_written_refl)
next
  case (PayOrder v e threshold oid payment_data uid)
  then show ?thesis by (simp add: pay_order_orders)
next
  case (CancelOrder now oid uid)
  then show ?thesis by (simp add: cancel_order_orders)
next
  case (AdminValidateOrder now oid)
  then show ?thesis by (simp add: admin_validate_order_orders)
next
  case (AdminShipOrder now oid delivery_data)
  then show ?thesis by (simp add: admin_ship_order_orders)
next
  case (AdminMarkDelivered now oid)
  then show ?thesis by (simp add: admin_mark_delivered_orders)
next
  case (AdminRefundOrder now oid)
  then show ?thesis by (simp add: admin_refund_order_orders)
next
  case (AdminCancelOrder now oid)
  then show ?thesis by (simp add: admin_cancel_order_orders)
qed

lemma upd_first_nth_cases:
  "find P xs = Some y \<Longrightarrow> i < length xs \<Longrightarrow>
     upd_first P f xs ! i = xs ! i \<or> (xs ! i = y \<and> upd_first P f xs ! i = f y)"
  by (induction xs arbitrary: i) (auto simp: nth_Cons split: nat.splits if_splits)

lemma one_order_written_nth:
  assumes w: "one_order_written T rows rows'" and i: "i < length rows"
  shows "length rows' = length rows
       \<and> order_id (rows' ! i) = order_id (rows ! i)
       \<and> paid_at (rows' ! i) = paid_at (rows ! i)
       \<and> created_at (rows' ! i) = created_at (rows ! i)
       \<and> (status (rows' ! i) = status (rows ! i)
            \<or> (status (rows ! i), status (rows' ! i)) \<in> set T)"
proof (cases "rows' = rows")
  case True
  then show ?thesis by simp
next
  case False
  with w obtain order x where
    f: "find (\<lambda>r. order_id r = order_id x) rows = Some order"
    and r: "rows' = upd_first (\<lambda>r. order_id r = order_id x) (\<lambda>r. x) rows"
    and t: "(status order, status x) \<in> set T"
    and p: "paid_at x = paid_at order" "created_at x = created_at order"
    unfolding one_order_written_def by blast
  from f have k: "order_id order = order_id x" by (auto simp: find_Some_iff)
  from upd_first_nth_cases [OF f i, of "\<lambda>r. x"]
  have "rows' ! i = rows ! i \<or> (rows ! i = order \<and> rows' ! i = x)" unfolding r .
  then show ?thesis
  proof
    assume "rows' ! i = rows ! i"
    then show ?thesis by (simp add: r)
  next
    assume "rows ! i = order \<and> rows' ! i = x"
    then show ?thesis using t p k by (simp add: r)
  qed
qed


lemma run_endpoint_nth:
  assumes i: "i < length (orders d)"
  shows "i < length (orders (run_endpoint ep d))
       \<and> order_id (orders (run_endpoint ep d) ! i) = order_id (orders d ! i)
       \<and> paid_at (orders (run_endpoint ep d) ! i) = paid_at (orders d ! i)
       \<and> (status (orders (run_endpoint ep d) ! i) = status (orders d ! i)
            \<or> (status (orders d ! i), status (orders (run_endpoint ep d) ! i))
                 \<in> set (status_transitions ep))"
  using run_endpoint_orders [of ep d]
proof
  assume "one_order_written (status_transitions ep) (orders d) (orders (run_endpoint ep d))"
  from one_order_written_nth [OF this i] i show ?thesis by simp
next
  assume "\<exists>x. orders (run_endpoint ep d) = orders d @ [x] \<and> status x = CREE \<and> paid_at x = None"
  then obtain x where "orders (run_endpoint ep d) = orders d @ [x]" by blast
  with i show ?thesis by (simp add: nth_append)
qed

text \<open>
  Claim C3 as stated: no endpoint changes the status of an order that is ANNULEE,
  REMBOURSEE or LIVREE.  It fails for LIVREE: the admin refund endpoint accepts a
  delivered order that has a payment and moves it to REMBOURSEE.
\<close>

theorem terminal_statuses_counterexample:
  "status (orders sample_db ! 2) = LIVREE
   \<and> order_id (orders sample_db ! 2) = ''o3''
   \<and> order_id (orders (run_endpoint (AdminRefundOrder 200 ''o3'') sample_db) ! 2) = ''o3''
   \<and> status (orders (run_endpoint (AdminRefundOrder 200 ''o3'') sample_db) ! 2) = REMBOURSEE"
  by (simp add: admin_refund_order_def order_get_by_id_def sample_db_def sample_order_def
      payment_get_by_order_id_def sample_payment_def order_update_eq commit_order_def Let_def)

text \<open>
  Claim C3 as amended: every endpoint keeps every order row in place with its key; it
  leaves the status of an order that is ANNULEE or REMBOURSEE as it is; and it leaves
  the status of an order that is LIVREE as it is, except the admin refund endpoint,
  which may move it to REMBOURSEE.
\<close>

theorem terminal_statuses:
  assumes i: "i < length (orders d)"
  shows "i < length (orders (run_endpoint ep d))
       \<and> order_id (orders (run_endpoint ep d) ! i) = order_id (orders d ! i)
       \<and> (status (orders d ! i) = ANNULEE \<or> status (orders d ! i) = REMBOURSEE
            \<longrightarrow> status (orders (run_endpoint ep d) ! i) = status (orders d ! i))
       \<and> (status (orders d ! i) = LIVREE
            \<longrightarrow> status (orders (run_endpoint ep d) ! i) = LIVREE
               \<or> (status (orders (run_endpoint ep d) ! i) = REMBOURSEE
                   \<and> (\<exists>now oid. ep = AdminRefundOrder now oid)))"
  using run_endpoint_nth [OF i, of ep] by (cases ep) auto

text \<open>A delivered and a cancelled order under endpoints that refuse them.\<close>

theorem terminal_statuses_witness:
  "2 < length (orders sample_db)
   \<and> status (orders sample_db ! 2) = LIVREE
   \<and> status (orders (run_endpoint (AdminCancelOrder 200 ''o3'') sample_db) ! 2) = LIVREE
   \<and> status (orders (run_endpoint (AdminMarkDelivered 200 ''o3'') sample_db) ! 2) = LIVREE
   \<and> status (orders (run_endpoint (AdminValidateOrder 200 ''o4'')
                (sample_db\<lparr>orders := [sample_order ''o4'' ANNULEE None]\<rparr>)) ! 0) = ANNULEE"
proof -
  have l: "2 < length (orders sample_db)" by (simp add: sample_db_def)
  have s: "status (orders sample_db ! 2) = LIVREE" by (simp add: sample_db_def sample_order_def)
  have l0: "0 < length (orders (sample_db\<lparr>orders := [sample_order ''o4'' ANNULEE None]\<rparr>))"
    by simp
  have s0: "status (orders (sample_db\<lparr>orders := [sample_order ''o4'' ANNULEE None]\<rparr>) ! 0)
              = ANNULEE"
    by (simp add: sample_order_def)
  show ?thesis
    using l s s0 terminal_statuses [OF l, of "AdminCancelOrder 200 ''o3''"]
      terminal_statuses [OF l, of "AdminMarkDelivered 200 ''o3''"]
      terminal_statuses [OF l0, of "AdminValidateOrder 200 ''o4''"]
    by simp
qed

subsection \<open>The payment instant of an order\<close>

lemma one_order_written_paid_at:
  assumes "one_order_written T rows rows'"
  shows "map paid_at rows' = map paid_at rows"
proof -
  have l: "length rows' = length rows"
    using assms unfolding one_order_written_def by auto
  show ?thesis
  proof (rule nth_equalityI)
    show "length (map paid_at rows') = length (map paid_at rows)" using l by simp
  next
    fix i assume "i < length (map paid_at rows')"
    then have i: "i < length rows" using l by simp
    from one_order_written_nth [OF assms i] i l
    show "map paid_at rows' ! i = map paid_at rows ! i" by simp
  qed
qed

lemma map_upd_first:
  "(\<And>x. g (f x) = g x) \<Longrightarrow> map g (upd_first P f xs) = map g xs"
  by (induction xs) auto

lemma paid_at_stamp_status [simp]: "paid_at (stamp_status now st x) = paid_at x"
  by (simp add: stamp_status_def)

lemma order_update_status_paid_at:
  "map paid_at (orders (snd (order_update_status now oid st d))) = map paid_at (orders d)"
  by (simp add: order_update_status_def map_upd_first split: option.splits)

lemma register_frame:
  "orders (snd (register c salt new_id em password fname lname addr d)) = orders d"
  "payments (snd (register c salt new_id em password fname lname addr d)) = payments d"
  by (simp_all add: register_def user_create_def Let_def split: option.splits)

lemma process_payment_orders:
  "orders (snd (process_payment gw e oid payment_data d)) = orders d"
  by (simp add: process_payment_def Let_def payment_create_def split: option.splits)

lemma process_refund_orders:
  "orders (snd (process_refund gw e oid amount_arg d)) = orders d"
  by (simp add: process_refund_def Let_def payment_create_def split: option.splits)

lemma run_operation_paid_at:
  "map paid_at (orders (run_operation op d)) = map paid_at (orders d)
   \<or> map paid_at (orders (run_operation op d)) = map paid_at (orders d) @ [None]"
proof (cases op)
  case (Endpoint ep)
  from run_endpoint_orders [of ep d] show ?thesis
  proof
    assume "one_order_written (status_transitions ep) (orders d) (orders (run_endpoint ep d))"
    from one_order_written_paid_at [OF this] Endpoint show ?thesis by simp
  next
    assume "\<exists>x. orders (run_endpoint ep d) = orders d @ [x] \<and> status x = CREE \<and> paid_at x = None"
    then obtain x where "orders (run_endpoint ep d) = orders d @ [x]" "paid_at x = None" by blast
    with Endpoint show ?thesis by simp
  qed
next
  case (Register c salt new_id em password fname lname addr)
  then show ?thesis by (simp add: register_frame)
next
  case (ProcessPayment gw e oid payment_data)
  then show ?thesis by (simp add: process_payment_orders)
next
  case (ProcessRefund gw e oid amount_arg)
  then show ?thesis by (simp add: process_refund_orders)
next
  case (UpdateStatus now oid st)
  then show ?thesis by (simp add: order_update_status_paid_at)
qed

lemma run_operation_unpaid:
  assumes "list_all (\<lambda>p. p = None) (map paid_at (orders d))"
  shows "list_all (\<lambda>p. p = None) (map paid_at (orders (run_operation op d)))"
  using run_operation_paid_at [of op d] assms by auto

lemma reachable_unpaid:
  assumes "reachable_from d0 d"
    and "list_all (\<lambda>p. p = None) (map paid_at (orders d0))"
  shows "list_all (\<lambda>p. p = None) (map paid_at (orders d))"
  using assms by (induction rule: reachable_from.induct) (simp_all add: run_operation_unpaid)


lemma stamp_status_PAYEE: "stamp_status now PAYEE x = x"
  by (simp add: stamp_status_def)

lemma unpaid_iff:
  "list_all (\<lambda>p. p = None) (map paid_at xs) = (\<forall>r \<in> set xs. paid_at r = None)"
  by (induction xs) simp_all

text \<open>
  Claim C10: no operation assigns \<open>paid_at\<close>.  In every state that the operations (the
  endpoints, registration, the payment service and the status helper of the repository)
  reach from a state whose orders have no \<open>paid_at\<close>, no order has one; this covers
  the states after a successful payment.
\<close>

theorem paid_at_never_assigned:
  assumes "reachable_from d0 d" and "\<forall>r \<in> set (orders d0). paid_at r = None"
  shows "\<forall>r \<in> set (orders d). paid_at r = None"
  using reachable_unpaid [OF assms(1)] assms(2) unfolding unpaid_iff .

lemma sample_paid_statuses:
  "map status (orders (snd (pay_order sample_validations sample_gateway_env 0 ''o1''
                              sample_pay_in ''u1'' sample_db))) = [PAYEE, PAYEE, LIVREE]"
proof -
  have a1: "order_get_by_id sample_db ''o1'' = Some (sample_order ''o1'' CREE None)"
    by (simp add: order_get_by_id_def sample_db_def sample_order_def)
  have a2: "order_user_id (sample_order ''o1'' CREE None) = ''u1''"
    by (simp add: sample_order_def)
  have a3: "status (sample_order ''o1'' CREE None) = CREE"
    by (simp add: sample_order_def)
  have a4: "run_validations sample_validations sample_pay_in = None"
    by (simp add: run_validations_def sample_validations_def sample_pay_in_def
        check_optional_def truthy_def)
  have a5: "gateway sample_gateway_env = Some \<lparr>use_stripe = False, use_simulation = True\<rparr>"
    by (simp add: sample_gateway_env_def PaymentGateway_init_def)
  have a6: "success (charge_card \<lparr>use_stripe = False, use_simulation = True\<rparr>
              (outcome sample_gateway_env) (tx_hex sample_gateway_env) (ch_hex sample_gateway_env)
              (sanitize_numeric sample_validations (card_number sample_pay_in)))"
    by (simp add: charge_card_def simulate_payment_def card_number_clean_def remove_char_def
        declined_cards_def success_cards_def accepted_def sample_validations_def
        sample_pay_in_def)
  from pay_order_success [OF a1 a2 a3 a4 a5 a6, of 0] obtain payment where
    r: "pay_order sample_validations sample_gateway_env 0 ''o1'' sample_pay_in ''u1'' sample_db =
       (Inr \<lparr>pr_payment_id = new_payment_id sample_gateway_env, pr_status = ''SUCCEEDED'',
             pr_amount_cents = order_total_cents sample_db ''o1''\<rparr>,
        commit_order ((sample_order ''o1'' CREE None)
                        \<lparr>status := PAYEE, payment_id := Some (new_payment_id sample_gateway_env)\<rparr>)
          (snd (clear_cart ''u1''
             (sample_db\<lparr>payments := payments sample_db @ [payment],
                products := decrement_stock 0 (order_items_of sample_db ''o1'')
                              (products sample_db)\<rparr>))))"
    by blast
  show ?thesis
    unfolding r
    by (simp add: commit_order_def clear_cart_frame sample_db_def sample_order_def)
qed

text \<open>After the open order of the example is paid it is PAYEE and has no \<open>paid_at\<close>.\<close>

theorem paid_at_never_assigned_witness:
  "map paid_at (orders sample_db) = [None, None, None]
   \<and> map status (orders (run_operation
         (Endpoint (PayOrder sample_validations sample_gateway_env 0 ''o1'' sample_pay_in ''u1''))
         sample_db)) = [PAYEE, PAYEE, LIVREE]
   \<and> map paid_at (orders (run_operation
         (Endpoint (PayOrder sample_validations sample_gateway_env 0 ''o1'' sample_pay_in ''u1''))
         sample_db)) = [None, None, None]"
proof -
  define d' where "d' = run_operation
         (Endpoint (PayOrder sample_validations sample_gateway_env 0 ''o1'' sample_pay_in ''u1''))
         sample_db"
  have h0: "map paid_at (orders sample_db) = [None, None, None]"
    by (simp add: sample_db_def sample_order_def)
  have h: "\<forall>r \<in> set (orders sample_db). paid_at r = None"
    by (simp add: sample_db_def sample_order_def)
  have s: "reachable_from sample_db d'"
    unfolding d'_def by (rule reachable_from.step) (rule reachable_from.start)
  have m: "map status (orders d') = [PAYEE, PAYEE, LIVREE]"
    unfolding d'_def using sample_paid_statuses by simp
  then have "length (orders d') = Suc (Suc (Suc 0))"
    using length_map [of status "orders d'"] by simp
  then obtain a b c where abc: "orders d' = [a, b, c]"
    by (auto simp: length_Suc_conv)
  from paid_at_never_assigned [OF s h] abc
  have "paid_at a = None" "paid_at b = None" "paid_at c = None" by simp_all
  then have n: "map paid_at (orders d') = [None, None, None]" using abc by simp
  show ?thesis
    using h0 m n unfolding d'_def by (intro conjI)
qed

subsection \<open>Payment statuses\<close>

lemma in_vocabulary_mark_refunded:
  "list_all in_vocabulary ps \<Longrightarrow> list_all in_vocabulary (mark_refunded oid ps)"
  by (induction ps) (simp_all add: mark_refunded_def in_vocabulary_def payment_vocabulary_def)

lemma pay_order_payments:
  "payments (snd (pay_order v e threshold oid payment_data uid d)) = payments d
   \<or> (\<exists>p. payments (snd (pay_order v e threshold oid payment_data uid d)) = payments d @ [p]
          \<and> in_vocabulary p)"
  by (simp add: pay_order_def Let_def payment_create_def order_update_eq clear_cart_frame
      commit_order_frame in_vocabulary_def payment_vocabulary_def split: option.splits)

lemma cancel_body_payments:
  "payments (snd (cancel_body msg now oid order d)) = payments d
   \<or> payments (snd (cancel_body msg now oid order d)) = mark_refunded oid (payments d)"
  by (simp add: cancel_body_def Let_def order_update_eq commit_order_frame split: option.splits)

lemma cancel_order_payments:
  "payments (snd (cancel_order now oid uid d)) = payments d
   \<or> payments (snd (cancel_order now oid uid d)) = mark_refunded oid (payments d)"
  by (cases "order_get_by_id d oid") (simp_all add: cancel_order_def cancel_body_payments)

lemma admin_cancel_order_payments:
  "payments (snd (admin_cancel_order now oid d)) = payments d
   \<or> payments (snd (admin_cancel_order now oid d)) = mark_refunded oid (payments d)"
  by (cases "order_get_by_id d oid") (simp_all add: admin_cancel_order_def cancel_body_payments)

lemma admin_refund_order_payments:
  "payments (snd (admin_refund_order now oid d)) = payments d
   \<or> payments (snd (admin_refund_order now oid d)) = mark_refunded oid (payments d)"
  by (simp add: admin_refund_order_def Let_def order_update_eq commit_order_frame
      split: option.splits)

lemma other_endpoints_payments:
  "payments (snd (view_cart uid d)) = payments d"
  "payments (snd (admin_validate_order now oid d)) = payments d"
  "payments (snd (admin_ship_order now oid delivery_data d)) = payments d"
  "payments (snd (admin_mark_delivered now oid d)) = payments d"
  by (simp_all add: view_cart_def admin_validate_order_def admin_ship_order_def
      admin_mark_delivered_def Let_def order_update_eq commit_order_frame
      split: option.splits prod.splits)


lemma run_endpoint_payments:
  "payments (run_endpoint ep d) = payments d
   \<or> (\<exists>p. payments (run_endpoint ep d) = payments d @ [p] \<and> in_vocabulary p)
   \<or> (\<exists>oid. payments (run_endpoint ep d) = mark_refunded oid (payments d))"
proof (cases ep)
  case (ViewCart uid)
  then show ?thesis by (simp add: other_endpoints_payments)
next
  case (Checkout now new_id uid)
  then show ?thesis by (simp add: checkout_payments)
next
  case (PayOrder v e threshold oid payment_data uid)
  then show ?thesis using pay_order_payments [of v e threshold oid payment_data uid d] by auto
next
  case (CancelOrder now oid uid)
  then show ?thesis using cancel_order_payments [of now oid uid d] by auto
next
  case (AdminValidateOrder now oid)
  then show ?thesis by (simp add: other_endpoints_payments)
next
  case (AdminShipOrder now oid delivery_data)
  then show ?thesis by (simp add: other_endpoints_payments)
next
  case (AdminMarkDelivered now oid)
  then show ?thesis by (simp add: other_endpoints_payments)
next
  case (AdminRefundOrder now oid)
  then show ?thesis using admin_refund_order_payments [of now oid d] by auto
next
  case (AdminCancelOrder now oid)
  then show ?thesis using admin_cancel_order_payments [of now oid d] by auto
qed

text \<open>
  Every endpoint keeps the payment table inside the vocabulary: it writes SUCCEEDED,
  FAILED or REFUNDED.  So does the refund of the payment service.
\<close>

lemma endpoints_keep_vocabulary:
  assumes "list_all in_vocabulary (payments d)"
  shows "list_all in_vocabulary (payments (run_endpoint ep d))"
  using run_endpoint_payments [of ep d] assms
  by (auto simp: in_vocabulary_mark_refunded)

lemma process_refund_keeps_vocabulary:
  assumes "list_all in_vocabulary (payments d)"
  shows "list_all in_vocabulary (payments (snd (process_refund gw e oid amount_arg d)))"
  using assms
  by (simp add: process_refund_def Let_def payment_create_def in_vocabulary_def
      payment_vocabulary_def split: option.splits)

lemma sample_pay_order_statuses:
  "map pay_status (payments (snd (pay_order sample_validations sample_gateway_env 0 ''o1''
                                    sample_pay_in ''u1'' sample_db)))
     = [''SUCCEEDED'', ''SUCCEEDED'', ''SUCCEEDED'']"
  by (simp add: pay_order_def order_get_by_id_def sample_db_def sample_order_def
      run_validations_def sample_validations_def sample_pay_in_def check_optional_def
      truthy_def sample_gateway_env_def PaymentGateway_init_def charge_card_def
      simulate_payment_def card_number_clean_def remove_char_def declined_cards_def
      success_cards_def accepted_def Let_def payment_create_def order_update_eq
      clear_cart_frame commit_order_frame sample_payment_def)

text \<open>
  Claim C4: every payment row that an operation writes has its status in the vocabulary
  PENDING, SUCCEEDED, FAILED, REFUNDED.  \<open>PaymentService.process_payment\<close> breaks it:
  on the open order of the example, with a card that the simulation accepts, it writes
  a row of status PAID, where \<open>pay_order\<close> writes SUCCEEDED.
\<close>

theorem process_payment_writes_PAID:
  "list_all in_vocabulary (payments sample_db)
   \<and> map pay_status (payments (snd (process_payment \<lparr>use_stripe = False, use_simulation = True\<rparr>
          sample_gateway_env ''o1'' sample_pay_in sample_db)))
       = [''SUCCEEDED'', ''SUCCEEDED'', ''PAID'']
   \<and> \<not> list_all in_vocabulary
          (payments (snd (process_payment \<lparr>use_stripe = False, use_simulation = True\<rparr>
             sample_gateway_env ''o1'' sample_pay_in sample_db)))"
  by (simp add: process_payment_def order_get_by_id_def sample_db_def sample_order_def
      sample_pay_in_def sample_gateway_env_def charge_card_def
      simulate_payment_def card_number_clean_def remove_char_def declined_cards_def
      success_cards_def accepted_def Let_def payment_create_def sample_payment_def
      in_vocabulary_def payment_vocabulary_def)

end
